theory Spec2Isabelle
  imports Main
begin

section \<open>The MCP OAuth module: data model\<close>

text \<open>
  The module under study is the third document of
  \<^verbatim>\<open>apps/web/utils/ai/choose-rule/ai-choose-rule.ts\<close> (the one that imports
  \<^verbatim>\<open>@modelcontextprotocol/sdk/client/auth.js\<close>). Its functions are \<^verbatim>\<open>async\<close>: each one
  reads and writes the database through Prisma, calls the SDK's network operations,
  reads the clock and writes to a logger. They are embedded as functions from a
  \<open>world\<close> to a result and a new world; a thrown exception is the \<open>Inl\<close> result.

  JavaScript strings are modelled as \<open>string\<close>, \<^verbatim>\<open>undefined\<close> and \<^verbatim>\<open>null\<close> as
  \<open>None\<close>, numbers and timestamps (milliseconds since the epoch) as \<open>int\<close>;
  fractional numbers and the range limit of \<^verbatim>\<open>Date\<close> are outside the model.
  A database operation succeeds, except the update of a row that does not exist.
  A parameter named \<^verbatim>\<open>serverUrl\<close> in the source is named \<open>url\<close> here, since
  \<open>serverUrl\<close> is the name of the configuration field. \<^verbatim>\<open>generateOAuthUrl\<close>, which
  no statement below is about, is left out.
\<close>

subsection \<open>Exceptions\<close>

text \<open>
  \<open>JsError m\<close> is \<^verbatim>\<open>new Error(m)\<close> thrown by this module, \<open>TypeError m\<close> is what
  \<^verbatim>\<open>new URL(s)\<close> throws on a string that is not a URL, and \<open>ExternalError m\<close> is
  any exception that comes out of a call into the SDK, Prisma or the integration catalog.
\<close>

datatype error = JsError string | TypeError string | ExternalError string

subsection \<open>Configuration (from \<^verbatim>\<open>./integrations\<close>)\<close>

datatype auth_type = OAuth | ApiToken

record oauth_config =
  oc_authorization_endpoint :: string
  oc_token_endpoint :: string
  oc_registration_endpoint :: "string option"

record integration_config =
  serverUrl :: "string option"
  scopes :: "string list"
  authType :: auth_type
  oauthConfig :: "oauth_config option"

record static_credentials =
  clientId :: "string option"
  clientSecret :: "string option"

subsection \<open>SDK types\<close>

record auth_server_metadata =
  issuer :: string
  authorization_endpoint :: string
  token_endpoint :: string
  registration_endpoint :: "string option"
  grant_types_supported :: "string list option"
  response_types_supported :: "string list option"
  token_endpoint_auth_methods_supported :: "string list option"
  code_challenge_methods_supported :: "string list option"

record resource_metadata =
  authorization_servers :: "string list option"

record client_information =
  client_id :: string
  client_secret :: "string option"

record client_metadata =
  client_name :: string
  redirect_uris :: "string list"
  grant_types :: "string list"
  response_types :: "string list"
  token_endpoint_auth_method :: string
  scope :: string

record oauth_tokens =
  access_token :: string
  refresh_token :: "string option"
  expires_in :: "int option"

subsection \<open>Persisted records\<close>

text \<open>
  \<^verbatim>\<open>prisma.mcpIntegration\<close> is a table with the unique key \<^verbatim>\<open>name\<close>: a map from the
  name to the rest of the row. \<^verbatim>\<open>prisma.mcpConnection\<close> is a list of rows;
  \<^verbatim>\<open>findFirst\<close> returns the first row of the list that matches.
\<close>

record mcp_integration =
  mi_id :: nat
  registeredAuthorizationUrl :: "string option"
  registeredTokenUrl :: "string option"
  registeredServerUrl :: "string option"
  oauthClientId :: "string option"
  oauthClientSecret :: "string option"

record mcp_connection =
  conn_id :: nat
  conn_name :: string
  conn_emailAccountId :: string
  conn_integrationId :: nat
  accessToken :: "string option"
  refreshToken :: "string option"
  expiresAt :: "int option"
  isActive :: bool
  apiKey :: "string option"

subsection \<open>Network calls and log lines\<close>

text \<open>
  One constructor for each network operation of the SDK that the module calls, with the
  arguments the module passes.
\<close>

datatype net_call =
    DiscoverProtectedResource string
  | DiscoverAuthorizationServer string
  | RegisterClient string client_metadata
  | ExchangeAuthorization string client_information string string string string
  | RefreshAuthorization string client_information string string

datatype log_level = LogInfo | LogWarn | LogError

datatype log_value = LStr string | LBool bool | LNum int | LErr error | LUndefined

type_synonym log_entry = "log_level \<times> string \<times> (string \<times> log_value) list"

subsection \<open>The world and its environment\<close>

record world =
  integrations :: "string \<rightharpoonup> mcp_integration"
  connections :: "mcp_connection list"
  nextId :: nat
  clock :: int
  trace :: "net_call list"
  logs :: "log_entry list"

text \<open>
  What the module does not control is a parameter: the integration catalog, the URL
  parser of the runtime, the answers of the remote servers (which may depend on the
  calls made so far) and the time each network call takes.
\<close>

record env =
  getIntegration :: "string \<Rightarrow> error + integration_config"
  getStaticCredentials :: "string \<Rightarrow> static_credentials option"
  parseURL :: "string \<Rightarrow> string option"
  discoverOAuthProtectedResourceMetadata ::
    "net_call list \<Rightarrow> string \<Rightarrow> error + resource_metadata option"
  discoverAuthorizationServerMetadata ::
    "net_call list \<Rightarrow> string \<Rightarrow> error + auth_server_metadata option"
  registerClient ::
    "net_call list \<Rightarrow> string \<Rightarrow> auth_server_metadata \<Rightarrow> client_metadata
       \<Rightarrow> error + client_information"
  exchangeAuthorization ::
    "net_call list \<Rightarrow> string \<Rightarrow> auth_server_metadata \<Rightarrow> client_information
       \<Rightarrow> string \<Rightarrow> string \<Rightarrow> string \<Rightarrow> string \<Rightarrow> error + oauth_tokens"
  refreshAuthorization ::
    "net_call list \<Rightarrow> string \<Rightarrow> auth_server_metadata \<Rightarrow> client_information
       \<Rightarrow> string \<Rightarrow> string \<Rightarrow> error + oauth_tokens"
  latency :: "net_call list \<Rightarrow> nat"

section \<open>Effects\<close>

type_synonym 'a io = "world \<Rightarrow> (error + 'a) \<times> world"

definition io_return :: "'a \<Rightarrow> 'a io" where
  "io_return x = (\<lambda>w. (Inr x, w))"

definition io_throw :: "error \<Rightarrow> 'a io" where
  "io_throw e = (\<lambda>w. (Inl e, w))"

definition io_bind :: "'a io \<Rightarrow> ('a \<Rightarrow> 'b io) \<Rightarrow> 'b io" where
  "io_bind m f = (\<lambda>w. case m w of (Inl e, w') \<Rightarrow> (Inl e, w') | (Inr x, w') \<Rightarrow> f x w')"

definition io_catch :: "'a io \<Rightarrow> (error \<Rightarrow> 'a io) \<Rightarrow> 'a io" where
  "io_catch m h = (\<lambda>w. case m w of (Inl e, w') \<Rightarrow> h e w' | (Inr x, w') \<Rightarrow> (Inr x, w'))"

definition io_lift :: "error + 'a \<Rightarrow> 'a io" where
  "io_lift r = (\<lambda>w. (r, w))"

text \<open>\<^verbatim>\<open>logger.info\<close>, \<^verbatim>\<open>logger.warn\<close>, \<^verbatim>\<open>logger.error\<close>.\<close>

definition logger :: "log_level \<Rightarrow> string \<Rightarrow> (string \<times> log_value) list \<Rightarrow> unit io" where
  "logger lvl msg ctx = (\<lambda>w. (Inr (), w\<lparr>logs := logs w @ [(lvl, msg, ctx)]\<rparr>))"

text \<open>
  A call of a network operation of the SDK: the call is recorded, time passes, and the
  answer is the remote side's, given the calls made before this one.
\<close>

definition network :: "env \<Rightarrow> net_call \<Rightarrow> (net_call list \<Rightarrow> error + 'a) \<Rightarrow> 'a io" where
  "network env c answer =
     (\<lambda>w. (answer (trace w),
           w\<lparr>trace := trace w @ [c],
             clock := clock w + int (latency env (trace w @ [c]))\<rparr>))"

text \<open>\<^verbatim>\<open>Date.now()\<close> and \<^verbatim>\<open>new Date()\<close>.\<close>

definition dateNow :: "int io" where
  "dateNow = (\<lambda>w. (Inr (clock w), w))"

text \<open>\<^verbatim>\<open>new URL(s)\<close>.\<close>

definition newURL :: "env \<Rightarrow> string \<Rightarrow> string io" where
  "newURL env s =
     (case parseURL env s of
        None \<Rightarrow> io_throw (TypeError ''Invalid URL'')
      | Some u \<Rightarrow> io_return u)"

subsection \<open>JavaScript helpers\<close>

text \<open>A string-valued expression used as a condition: \<^verbatim>\<open>undefined\<close>, \<^verbatim>\<open>null\<close> and
  the empty string are false.\<close>

definition truthy :: "string option \<Rightarrow> bool" where
  "truthy s = (case s of None \<Rightarrow> False | Some v \<Rightarrow> v \<noteq> [])"

text \<open>\<^verbatim>\<open>a || b\<close> on string values.\<close>

definition js_or :: "string option \<Rightarrow> string option \<Rightarrow> string option" where
  "js_or a b = (if truthy a then a else b)"

definition endsWith :: "string \<Rightarrow> string \<Rightarrow> bool" where
  "endsWith s suf = (length suf \<le> length s \<and> drop (length s - length suf) s = suf)"

text \<open>\<^verbatim>\<open>s.slice(0, e)\<close>: a negative \<open>e\<close> counts from the end.\<close>

definition slice0 :: "string \<Rightarrow> int \<Rightarrow> string" where
  "slice0 s e =
     (let n = int (length s);
          k = (if e < 0 then max (n + e) 0 else min e n)
      in take (nat k) s)"

fun joinWith :: "string \<Rightarrow> string list \<Rightarrow> string" where
  "joinWith sep [] = []"
| "joinWith sep [x] = x"
| "joinWith sep (x # y # ys) = x @ sep @ joinWith sep (y # ys)"

definition lopt :: "string option \<Rightarrow> log_value" where
  "lopt s = (case s of None \<Rightarrow> LUndefined | Some v \<Rightarrow> LStr v)"

text \<open>The value of a string expression when it is truthy: \<^verbatim>\<open>x || undefined\<close>.\<close>

definition ifTruthy :: "string option \<Rightarrow> string option" where
  "ifTruthy s = (if truthy s then s else None)"

section \<open>Database operations (Prisma)\<close>

text \<open>
  In the \<^verbatim>\<open>data\<close> of a Prisma \<^verbatim>\<open>update\<close>, a field that is \<^verbatim>\<open>undefined\<close> is left as it
  is in the row; in the data of a \<^verbatim>\<open>create\<close>, it gets the column's default, \<^verbatim>\<open>null\<close>.
  In \<open>integration_data\<close>, \<open>None\<close> is \<^verbatim>\<open>undefined\<close>.
\<close>

record integration_data =
  d_registeredAuthorizationUrl :: "string option"
  d_registeredTokenUrl :: "string option"
  d_registeredServerUrl :: "string option"
  d_oauthClientId :: "string option"
  d_oauthClientSecret :: "string option"

definition noData :: integration_data where
  "noData = \<lparr>d_registeredAuthorizationUrl = None, d_registeredTokenUrl = None,
             d_registeredServerUrl = None, d_oauthClientId = None,
             d_oauthClientSecret = None\<rparr>"

definition setUnlessUndefined :: "'a option \<Rightarrow> 'a option \<Rightarrow> 'a option" where
  "setUnlessUndefined new old = (case new of None \<Rightarrow> old | Some v \<Rightarrow> Some v)"

definition updateIntegrationRow :: "integration_data \<Rightarrow> mcp_integration \<Rightarrow> mcp_integration" where
  "updateIntegrationRow d r =
     r\<lparr>registeredAuthorizationUrl :=
         setUnlessUndefined (d_registeredAuthorizationUrl d) (registeredAuthorizationUrl r),
       registeredTokenUrl := setUnlessUndefined (d_registeredTokenUrl d) (registeredTokenUrl r),
       registeredServerUrl := setUnlessUndefined (d_registeredServerUrl d) (registeredServerUrl r),
       oauthClientId := setUnlessUndefined (d_oauthClientId d) (oauthClientId r),
       oauthClientSecret := setUnlessUndefined (d_oauthClientSecret d) (oauthClientSecret r)\<rparr>"

definition createIntegrationRow :: "nat \<Rightarrow> integration_data \<Rightarrow> mcp_integration" where
  "createIntegrationRow i d =
     \<lparr>mi_id = i,
      registeredAuthorizationUrl = d_registeredAuthorizationUrl d,
      registeredTokenUrl = d_registeredTokenUrl d,
      registeredServerUrl = d_registeredServerUrl d,
      oauthClientId = d_oauthClientId d,
      oauthClientSecret = d_oauthClientSecret d\<rparr>"

text \<open>\<^verbatim>\<open>prisma.mcpIntegration.findUnique({ where: { name } })\<close>.\<close>

definition findUniqueIntegration :: "string \<Rightarrow> mcp_integration option io" where
  "findUniqueIntegration integration = (\<lambda>w. (Inr (integrations w integration), w))"

text \<open>\<^verbatim>\<open>prisma.mcpIntegration.upsert({ where: { name }, update: d, create: { name, ...d } })\<close>.\<close>

definition upsertIntegrationRow :: "string \<Rightarrow> integration_data \<Rightarrow> mcp_integration io" where
  "upsertIntegrationRow integration d =
     (\<lambda>w. case integrations w integration of
             Some r \<Rightarrow>
               (Inr (updateIntegrationRow d r),
                w\<lparr>integrations := (integrations w)(integration \<mapsto> updateIntegrationRow d r)\<rparr>)
           | None \<Rightarrow>
               (Inr (createIntegrationRow (nextId w) d),
                w\<lparr>integrations :=
                    (integrations w)(integration \<mapsto> createIntegrationRow (nextId w) d),
                  nextId := Suc (nextId w)\<rparr>))"

text \<open>
  The filter \<^verbatim>\<open>{ emailAccountId, integration: { name: integration }, isActive: true }\<close>:
  the row belongs to the account, the integration row it points to has the given name,
  and it is active.
\<close>

definition connectionMatches :: "world \<Rightarrow> string \<Rightarrow> string \<Rightarrow> mcp_connection \<Rightarrow> bool" where
  "connectionMatches w emailAccountId integration c =
     (conn_emailAccountId c = emailAccountId \<and>
      (case integrations w integration of
         None \<Rightarrow> False
       | Some r \<Rightarrow> conn_integrationId c = mi_id r) \<and>
      isActive c)"

definition findFirstConnection :: "string \<Rightarrow> string \<Rightarrow> mcp_connection option io" where
  "findFirstConnection emailAccountId integration =
     (\<lambda>w. (Inr (List.find (connectionMatches w emailAccountId integration) (connections w)), w))"

text \<open>\<^verbatim>\<open>prisma.mcpConnection.update({ where: { id, emailAccountId }, data })\<close>; it throws
  when no row matches.\<close>

definition updateConnection ::
  "nat \<Rightarrow> string \<Rightarrow> (mcp_connection \<Rightarrow> mcp_connection) \<Rightarrow> unit io" where
  "updateConnection cid emailAccountId upd =
     (\<lambda>w. if list_ex (\<lambda>c. conn_id c = cid \<and> conn_emailAccountId c = emailAccountId)
               (connections w)
          then (Inr (),
                w\<lparr>connections :=
                    map (\<lambda>c. if conn_id c = cid \<and> conn_emailAccountId c = emailAccountId
                             then upd c else c)
                      (connections w)\<rparr>)
          else (Inl (ExternalError ''Record to update not found''), w))"

text \<open>\<^verbatim>\<open>prisma.mcpConnection.upsert\<close> on the unique pair
  \<^verbatim>\<open>emailAccountId_integrationId\<close>.\<close>

definition upsertConnection ::
  "string \<Rightarrow> nat \<Rightarrow> (mcp_connection \<Rightarrow> mcp_connection) \<Rightarrow> (nat \<Rightarrow> mcp_connection)
     \<Rightarrow> unit io" where
  "upsertConnection emailAccountId integrationId upd create =
     (\<lambda>w. if list_ex (\<lambda>c. conn_emailAccountId c = emailAccountId \<and>
                           conn_integrationId c = integrationId)
               (connections w)
          then (Inr (),
                w\<lparr>connections :=
                    map (\<lambda>c. if conn_emailAccountId c = emailAccountId \<and>
                                conn_integrationId c = integrationId
                             then upd c else c)
                      (connections w)\<rparr>)
          else (Inr (),
                w\<lparr>connections := connections w @ [create (nextId w)],
                  nextId := Suc (nextId w)\<rparr>))"

section \<open>The module\<close>

definition DEFAULT_TOKEN_EXPIRY_MS :: int where
  "DEFAULT_TOKEN_EXPIRY_MS = 60 * 60 * 1000"

definition getOAuthServerUrl :: "integration_config \<Rightarrow> string" where
  "getOAuthServerUrl integrationConfig =
     (let url = (case ifTruthy (serverUrl integrationConfig) of None \<Rightarrow> [] | Some s \<Rightarrow> s)
      in if endsWith url ''/mcp'' then slice0 url (- 4) else url)"

definition createAuthServerMetadata ::
  "string \<Rightarrow> string \<Rightarrow> string \<Rightarrow> string option \<Rightarrow> auth_server_metadata" where
  "createAuthServerMetadata iss authorizationEndpoint tokenEndpoint registrationEndpoint =
     \<lparr>issuer = iss,
      authorization_endpoint = authorizationEndpoint,
      token_endpoint = tokenEndpoint,
      registration_endpoint = ifTruthy registrationEndpoint,
      grant_types_supported = Some [''authorization_code'', ''refresh_token''],
      response_types_supported = Some [''code''],
      token_endpoint_auth_methods_supported = Some [''none''],
      code_challenge_methods_supported = Some [''S256'', ''plain'']\<rparr>"

text \<open>\<^verbatim>\<open>if (expiresIn)\<close>: a number is truthy unless it is zero.\<close>

definition calculateTokenExpiration :: "int option \<Rightarrow> string \<Rightarrow> bool \<Rightarrow> int io" where
  "calculateTokenExpiration expiresIn integration isRefresh =
     (case (case expiresIn of None \<Rightarrow> None | Some n \<Rightarrow> if n = 0 then None else Some n) of
        Some n \<Rightarrow> io_bind dateNow (\<lambda>now. io_return (now + n * 1000))
      | None \<Rightarrow>
          io_bind
            (logger LogWarn ''OAuth provider did not return expires_in, using default expiry''
               [(''integration'', LStr integration),
                (''isRefresh'', LBool isRefresh),
                (''defaultExpiryMs'', LNum DEFAULT_TOKEN_EXPIRY_MS)])
            (\<lambda>_. io_bind dateNow (\<lambda>now. io_return (now + DEFAULT_TOKEN_EXPIRY_MS))))"

definition upsertMcpIntegration :: "string \<Rightarrow> integration_data \<Rightarrow> mcp_integration io" where
  "upsertMcpIntegration integration d = upsertIntegrationRow integration d"

text \<open>\<^verbatim>\<open>resourceMetadata?.authorization_servers?.[0]\<close>, when it is truthy.\<close>

definition firstAuthorizationServer :: "resource_metadata option \<Rightarrow> string option" where
  "firstAuthorizationServer resourceMetadata =
     (case resourceMetadata of
        None \<Rightarrow> None
      | Some m \<Rightarrow>
          (case authorization_servers m of
             None \<Rightarrow> None
           | Some [] \<Rightarrow> None
           | Some (u # _) \<Rightarrow> ifTruthy (Some u)))"

text \<open>The cached endpoints, when the condition of the cache check holds.\<close>

definition cachedEndpoints :: "mcp_integration option \<Rightarrow> string \<Rightarrow> (string \<times> string) option" where
  "cachedEndpoints stored url =
     (case stored of
        None \<Rightarrow> None
      | Some r \<Rightarrow>
          (case (ifTruthy (registeredAuthorizationUrl r), ifTruthy (registeredTokenUrl r)) of
             (Some a, Some t) \<Rightarrow> if registeredServerUrl r = Some url then Some (a, t) else None
           | _ \<Rightarrow> None))"

text \<open>
  \<^verbatim>\<open>discoverMetadata\<close> is given in four parts: the three blocks of its nested
  \<^verbatim>\<open>try\<close>/\<^verbatim>\<open>catch\<close>, then the function itself.

  The inner \<^verbatim>\<open>try\<close>/\<^verbatim>\<open>catch\<close>: the optional protected-resource lookup, which yields the
  URL of the authorization server.
\<close>

definition protectedResourceStep :: "env \<Rightarrow> string \<Rightarrow> string \<Rightarrow> string io" where
  "protectedResourceStep env url integration =
     io_catch
       (io_bind
          (network env (DiscoverProtectedResource url)
             (\<lambda>h. discoverOAuthProtectedResourceMetadata env h url))
          (\<lambda>resourceMetadata.
             case firstAuthorizationServer resourceMetadata of
               Some u \<Rightarrow>
                 io_bind
                   (logger LogInfo ''Found auth server via protected resource metadata''
                      [(''integration'', LStr integration), (''authServerUrl'', LStr u)])
                   (\<lambda>_. io_return u)
             | None \<Rightarrow> io_return url))
       (\<lambda>_.
          io_bind
            (logger LogInfo
               ''Protected resource metadata not available, using server URL directly''
               [(''integration'', LStr integration), (''serverUrl'', LStr url)])
            (\<lambda>_. io_return url))"

text \<open>The rest of the outer \<^verbatim>\<open>try\<close> block: the required lookup and the cache write.\<close>

definition authorizationServerStep ::
  "env \<Rightarrow> string \<Rightarrow> string \<Rightarrow> string \<Rightarrow> auth_server_metadata io" where
  "authorizationServerStep env url integration authServerUrl =
     io_bind
       (network env (DiscoverAuthorizationServer authServerUrl)
          (\<lambda>h. discoverAuthorizationServerMetadata env h authServerUrl))
       (\<lambda>found.
          case found of
            None \<Rightarrow> io_throw (JsError ''OAuth metadata discovery returned no results'')
          | Some metadata \<Rightarrow>
              io_bind
                (upsertMcpIntegration integration
                   (noData\<lparr>d_registeredAuthorizationUrl := Some (authorization_endpoint metadata),
                            d_registeredTokenUrl := Some (token_endpoint metadata),
                            d_registeredServerUrl := Some url\<rparr>))
                (\<lambda>_.
              io_bind
                (logger LogInfo ''OAuth metadata discovered and cached''
                   [(''integration'', LStr integration),
                    (''authEndpoint'', LStr (authorization_endpoint metadata)),
                    (''tokenEndpoint'', LStr (token_endpoint metadata)),
                    (''registrationEndpoint'', lopt (registration_endpoint metadata))])
                (\<lambda>_. io_return metadata)))"

text \<open>The outer \<^verbatim>\<open>catch\<close> block.\<close>

definition fallbackStep ::
  "integration_config \<Rightarrow> string \<Rightarrow> string \<Rightarrow> error \<Rightarrow> auth_server_metadata io" where
  "fallbackStep integrationConfig url integration err =
     io_bind
       (logger LogWarn ''Failed to discover OAuth metadata, trying fallback config''
          [(''error'', LErr err), (''integration'', LStr integration)])
       (\<lambda>_.
     case oauthConfig integrationConfig of
       Some oc \<Rightarrow>
         io_bind
           (logger LogInfo ''Using static OAuth config fallback''
              [(''integration'', LStr integration),
               (''authEndpoint'', LStr (oc_authorization_endpoint oc))])
           (\<lambda>_.
         let metadata =
               createAuthServerMetadata url (oc_authorization_endpoint oc)
                 (oc_token_endpoint oc) (oc_registration_endpoint oc)
         in
         io_bind
           (upsertMcpIntegration integration
              (noData\<lparr>d_registeredAuthorizationUrl := Some (authorization_endpoint metadata),
                       d_registeredTokenUrl := Some (token_endpoint metadata),
                       d_registeredServerUrl := Some url\<rparr>))
           (\<lambda>_. io_return metadata))
     | None \<Rightarrow>
         io_bind
           (logger LogError ''No fallback OAuth config available''
              [(''error'', LErr err), (''integration'', LStr integration)])
           (\<lambda>_.
         io_throw
           (JsError
              (''Could not discover OAuth endpoints for '' @ integration @
               ''. Server may not support OAuth discovery and no fallback config is available.''))))"

definition discoverMetadata :: "env \<Rightarrow> string \<Rightarrow> string \<Rightarrow> auth_server_metadata io" where
  "discoverMetadata env url integration =
     io_bind (io_lift (getIntegration env integration)) (\<lambda>integrationConfig.
     io_bind (findUniqueIntegration integration) (\<lambda>stored.
     case cachedEndpoints stored url of
       Some (a, t) \<Rightarrow>
         io_bind
           (logger LogInfo ''Using cached OAuth metadata'' [(''integration'', LStr integration)])
           (\<lambda>_. io_return (createAuthServerMetadata url a t None))
     | None \<Rightarrow>
         io_bind
           (logger LogInfo ''Discovering OAuth metadata from server''
              [(''integration'', LStr integration), (''serverUrl'', LStr url)])
           (\<lambda>_.
         io_catch
           (io_bind (protectedResourceStep env url integration)
              (\<lambda>authServerUrl. authorizationServerStep env url integration authServerUrl))
           (\<lambda>err. fallbackStep integrationConfig url integration err))))"

definition getMetadataForIntegration ::
  "env \<Rightarrow> integration_config \<Rightarrow> string \<Rightarrow> auth_server_metadata io" where
  "getMetadataForIntegration env integrationConfig integration =
     (let oauthServerUrl = getOAuthServerUrl integrationConfig
      in discoverMetadata env oauthServerUrl integration)"

definition getOAuthClient :: "env \<Rightarrow> string \<Rightarrow> string option \<Rightarrow> client_information io" where
  "getOAuthClient env integration redirectUri =
     io_bind (io_lift (getIntegration env integration)) (\<lambda>integrationConfig.
     let staticCreds = getStaticCredentials env integration in
     case ifTruthy (Option.bind staticCreds clientId) of
       Some cid \<Rightarrow>
         io_bind
           (logger LogInfo ''Using static OAuth credentials'' [(''integration'', LStr integration)])
           (\<lambda>_. io_return
                  \<lparr>client_id = cid, client_secret = Option.bind staticCreds clientSecret\<rparr>)
     | None \<Rightarrow>
         io_bind (findUniqueIntegration integration) (\<lambda>stored.
         case ifTruthy (Option.bind stored oauthClientId) of
           Some cid \<Rightarrow>
             io_bind
               (logger LogInfo ''Using stored OAuth credentials''
                  [(''integration'', LStr integration)])
               (\<lambda>_. io_return
                      \<lparr>client_id = cid,
                       client_secret = ifTruthy (Option.bind stored oauthClientSecret)\<rparr>)
         | None \<Rightarrow>
             if \<not> truthy (serverUrl integrationConfig)
             then io_throw (JsError (''No server URL configured for '' @ integration))
             else
               (case ifTruthy redirectUri of
                  None \<Rightarrow>
                    io_throw
                      (JsError
                         (''redirectUri is required for dynamic client registration for '' @
                          integration))
                | Some uri \<Rightarrow>
                    io_bind
                      (logger LogInfo ''Performing dynamic client registration''
                         [(''integration'', LStr integration)])
                      (\<lambda>_.
                    let oauthServerUrl = getOAuthServerUrl integrationConfig in
                    io_bind (discoverMetadata env oauthServerUrl integration) (\<lambda>metadata.
                    case ifTruthy (registration_endpoint metadata) of
                      None \<Rightarrow>
                        io_throw
                          (JsError
                             (''Dynamic registration not supported for '' @ integration @
                              ''. Please configure static OAuth credentials.''))
                    | Some endpoint \<Rightarrow>
                        let clientMetadata =
                              \<lparr>client_name = ''Inbox Zero'',
                               redirect_uris = [uri],
                               grant_types = [''authorization_code'', ''refresh_token''],
                               response_types = [''code''],
                               token_endpoint_auth_method = ''none'',
                               scope = joinWith '' '' (scopes integrationConfig)\<rparr>
                        in
                        io_bind
                          (network env (RegisterClient endpoint clientMetadata)
                             (\<lambda>h. registerClient env h endpoint metadata clientMetadata))
                          (\<lambda>registered.
                        io_bind
                          (upsertMcpIntegration integration
                             (noData\<lparr>d_oauthClientId := Some (client_id registered),
                                      d_oauthClientSecret := client_secret registered\<rparr>))
                          (\<lambda>_.
                        io_bind
                          (logger LogInfo ''Dynamic client registration successful''
                             [(''integration'', LStr integration),
                              (''clientId'', LStr (client_id registered))])
                          (\<lambda>_. io_return
                                 \<lparr>client_id = client_id registered,
                                  client_secret = client_secret registered\<rparr>))))))))"

definition refreshOAuthTokens :: "env \<Rightarrow> string \<Rightarrow> string \<Rightarrow> oauth_tokens io" where
  "refreshOAuthTokens env integration emailAccountId =
     io_bind (io_lift (getIntegration env integration)) (\<lambda>integrationConfig.
     case ifTruthy (serverUrl integrationConfig) of
       None \<Rightarrow> io_throw (JsError (''No server URL configured for '' @ integration))
     | Some url \<Rightarrow>
         io_bind (findFirstConnection emailAccountId integration) (\<lambda>connection.
         case connection of
           None \<Rightarrow>
             io_throw
               (JsError
                  (''No refresh token found for '' @ integration @ '' connection '' @
                   emailAccountId))
         | Some conn \<Rightarrow>
             (case ifTruthy (refreshToken conn) of
                None \<Rightarrow>
                  io_throw
                    (JsError
                       (''No refresh token found for '' @ integration @ '' connection '' @
                        emailAccountId))
              | Some oldRefreshToken \<Rightarrow>
                  io_bind (getOAuthClient env integration None) (\<lambda>clientInfo.
                  io_bind (getMetadataForIntegration env integrationConfig integration)
                    (\<lambda>metadata.
                  io_bind (newURL env url) (\<lambda>resource.
                  io_bind
                    (network env
                       (RefreshAuthorization (token_endpoint metadata) clientInfo
                          oldRefreshToken resource)
                       (\<lambda>h. refreshAuthorization env h (token_endpoint metadata) metadata
                              clientInfo oldRefreshToken resource))
                    (\<lambda>tokens.
                  io_bind (calculateTokenExpiration (expires_in tokens) integration True)
                    (\<lambda>expiry.
                  io_bind
                    (updateConnection (conn_id conn) emailAccountId
                       (\<lambda>c. c\<lparr>accessToken := Some (access_token tokens),
                                refreshToken :=
                                  js_or (refresh_token tokens) (Some oldRefreshToken),
                                expiresAt := Some expiry\<rparr>))
                    (\<lambda>_.
                  io_bind
                    (logger LogInfo ''OAuth tokens refreshed''
                       [(''integration'', LStr integration),
                        (''emailAccountId'', LStr emailAccountId)])
                    (\<lambda>_. io_return tokens))))))))))"

definition getValidAccessToken :: "env \<Rightarrow> string \<Rightarrow> string \<Rightarrow> string io" where
  "getValidAccessToken env integration emailAccountId =
     io_bind (findFirstConnection emailAccountId integration) (\<lambda>connection.
     case ifTruthy (Option.bind connection accessToken) of
       None \<Rightarrow>
         io_throw
           (JsError
              (''No access token found for '' @ integration @
               ''. Please connect the integration first.''))
     | Some token \<Rightarrow>
         io_bind dateNow (\<lambda>now.
         let isExpired =
               (case Option.bind connection expiresAt of
                  None \<Rightarrow> False
                | Some t \<Rightarrow> t < now)
         in
         if isExpired \<and> truthy (Option.bind connection refreshToken)
         then
           io_bind
             (logger LogInfo ''Access token expired, refreshing''
                [(''integration'', LStr integration), (''emailAccountId'', LStr emailAccountId)])
             (\<lambda>_.
           io_bind (refreshOAuthTokens env integration emailAccountId)
             (\<lambda>tokens. io_return (access_token tokens)))
         else if isExpired
         then
           io_throw
             (JsError
                (''Access token for '' @ integration @
                 '' has expired and no refresh token is available. Please reconnect.''))
         else io_return token))"

text \<open>\<^verbatim>\<open>findFirst\<close> of the connection for an api-token integration, selecting
  \<^verbatim>\<open>apiKey\<close>.\<close>

definition getAuthToken :: "env \<Rightarrow> string \<Rightarrow> string \<Rightarrow> string io" where
  "getAuthToken env integration emailAccountId =
     io_bind (io_lift (getIntegration env integration)) (\<lambda>integrationConfig.
     if authType integrationConfig = ApiToken
     then
       io_bind (findFirstConnection emailAccountId integration) (\<lambda>connection.
       case ifTruthy (Option.bind connection apiKey) of
         None \<Rightarrow>
           io_throw
             (JsError
                (''No API key found for '' @ integration @
                 ''. Please configure the integration first.''))
       | Some k \<Rightarrow> io_return k)
     else getValidAccessToken env integration emailAccountId)"

definition handleOAuthCallback ::
  "env \<Rightarrow> string \<Rightarrow> string \<Rightarrow> string \<Rightarrow> string \<Rightarrow> string \<Rightarrow> oauth_tokens io" where
  "handleOAuthCallback env integration code codeVerifier redirectUri emailAccountId =
     io_bind (io_lift (getIntegration env integration)) (\<lambda>integrationConfig.
     case ifTruthy (serverUrl integrationConfig) of
       None \<Rightarrow> io_throw (JsError (''No server URL configured for '' @ integration))
     | Some url \<Rightarrow>
         io_bind (getOAuthClient env integration (Some redirectUri)) (\<lambda>clientInfo.
         io_bind (getMetadataForIntegration env integrationConfig integration) (\<lambda>metadata.
         io_bind (newURL env url) (\<lambda>resource.
         io_bind
           (network env
              (ExchangeAuthorization (token_endpoint metadata) clientInfo code codeVerifier
                 redirectUri resource)
              (\<lambda>h. exchangeAuthorization env h (token_endpoint metadata) metadata clientInfo
                     code codeVerifier redirectUri resource))
           (\<lambda>tokens.
         io_bind (upsertIntegrationRow integration noData) (\<lambda>dbIntegration.
         io_bind (calculateTokenExpiration (expires_in tokens) integration False) (\<lambda>expiry.
         io_bind
           (upsertConnection emailAccountId (mi_id dbIntegration)
              (\<lambda>c. c\<lparr>accessToken := Some (access_token tokens),
                       refreshToken :=
                         setUnlessUndefined (ifTruthy (refresh_token tokens)) (refreshToken c),
                       expiresAt := Some expiry,
                       isActive := True\<rparr>)
              (\<lambda>i. \<lparr>conn_id = i,
                     conn_name = integration,
                     conn_emailAccountId = emailAccountId,
                     conn_integrationId = mi_id dbIntegration,
                     accessToken = Some (access_token tokens),
                     refreshToken = ifTruthy (refresh_token tokens),
                     expiresAt = Some expiry,
                     isActive = True,
                     apiKey = None\<rparr>))
           (\<lambda>_.
         io_bind
           (logger LogInfo ''OAuth callback completed''
              [(''integration'', LStr integration),
               (''emailAccountId'', LStr emailAccountId),
               (''hasRefreshToken'', LBool (truthy (refresh_token tokens)))])
           (\<lambda>_. io_return tokens)))))))))"

section \<open>Concrete configurations\<close>

text \<open>An integration, a remote side and some database states, for running the module.\<close>

definition acmeConfig :: integration_config where
  "acmeConfig =
     \<lparr>serverUrl = Some ''https://mcp.acme.com/mcp'',
      scopes = [''read'', ''write''],
      authType = OAuth,
      oauthConfig = None\<rparr>"

definition acmeFallback :: oauth_config where
  "acmeFallback =
     \<lparr>oc_authorization_endpoint = ''https://auth.acme.com/authorize'',
      oc_token_endpoint = ''https://auth.acme.com/token'',
      oc_registration_endpoint = Some ''https://auth.acme.com/register''\<rparr>"

definition acmeMetadata :: auth_server_metadata where
  "acmeMetadata =
     \<lparr>issuer = ''https://mcp.acme.com'',
      authorization_endpoint = ''https://mcp.acme.com/authorize'',
      token_endpoint = ''https://mcp.acme.com/token'',
      registration_endpoint = Some ''https://mcp.acme.com/register'',
      grant_types_supported = None,
      response_types_supported = Some [''code''],
      token_endpoint_auth_methods_supported = None,
      code_challenge_methods_supported = Some [''S256'']\<rparr>"

text \<open>
  A remote side whose protected-resource document is missing, whose authorization-server
  document is \<open>acmeMetadata\<close>, and whose token endpoint answers with the given tokens.
\<close>

definition acmeEnv :: "integration_config \<Rightarrow> oauth_tokens \<Rightarrow> env" where
  "acmeEnv cfg tokens =
     \<lparr>getIntegration =
        (\<lambda>k. if k = ''acme'' then Inr cfg else Inl (ExternalError ''Unknown integration'')),
      getStaticCredentials = (\<lambda>k. None),
      parseURL = (\<lambda>s. if s = [] then None else Some s),
      discoverOAuthProtectedResourceMetadata = (\<lambda>h u. Inl (ExternalError ''HTTP 404'')),
      discoverAuthorizationServerMetadata = (\<lambda>h u. Inr (Some acmeMetadata)),
      registerClient = (\<lambda>h endpoint metadata clientMetadata.
                          Inr \<lparr>client_id = ''client-1'', client_secret = None\<rparr>),
      exchangeAuthorization = (\<lambda>h endpoint metadata client code verifier uri resource.
                                 Inr tokens),
      refreshAuthorization = (\<lambda>h endpoint metadata client token resource. Inr tokens),
      latency = (\<lambda>h. 5)\<rparr>"

text \<open>The same remote side, with an authorization-server lookup that fails with the given
  error.\<close>

definition brokenEnv :: "integration_config \<Rightarrow> error \<Rightarrow> env" where
  "brokenEnv cfg err =
     (acmeEnv cfg \<lparr>access_token = ''unused'', refresh_token = None, expires_in = None\<rparr>)
       \<lparr>discoverAuthorizationServerMetadata := (\<lambda>h u. Inl err)\<rparr>"

definition emptyWorld :: world where
  "emptyWorld =
     \<lparr>integrations = Map.empty, connections = [], nextId = 1, clock = 1000000,
      trace = [], logs = []\<rparr>"

definition acmeRow :: mcp_integration where
  "acmeRow =
     \<lparr>mi_id = 1,
      registeredAuthorizationUrl = Some ''https://mcp.acme.com/authorize'',
      registeredTokenUrl = Some ''https://mcp.acme.com/token'',
      registeredServerUrl = Some ''https://mcp.acme.com'',
      oauthClientId = Some ''client-1'',
      oauthClientSecret = None\<rparr>"

definition acmeConnection :: mcp_connection where
  "acmeConnection =
     \<lparr>conn_id = 2,
      conn_name = ''acme'',
      conn_emailAccountId = ''user-1'',
      conn_integrationId = 1,
      accessToken = Some ''at-1'',
      refreshToken = Some ''rt-1'',
      expiresAt = Some 999000,
      isActive = True,
      apiKey = None\<rparr>"

text \<open>A world where \<open>user-1\<close> is connected to \<open>acme\<close>, with a token that expired one
  second ago.\<close>

definition connectedWorld :: world where
  "connectedWorld =
     \<lparr>integrations = [''acme'' \<mapsto> acmeRow], connections = [acmeConnection], nextId = 3,
      clock = 1000000, trace = [], logs = []\<rparr>"

definition acmeTokens :: oauth_tokens where
  "acmeTokens = \<lparr>access_token = ''at-2'', refresh_token = None, expires_in = Some 3600\<rparr>"

text \<open>A token response that rotates the refresh token.\<close>

definition rotatedTokens :: oauth_tokens where
  "rotatedTokens = \<lparr>access_token = ''at-3'', refresh_token = Some ''rt-2'', expires_in = Some 3600\<rparr>"


section \<open>Notions used in the statements\<close>

text \<open>
  None of the following is part of the module; they name what the statements below
  speak about.

  The URL at which the authorization-server document is looked up, given the answer
  of the protected-resource lookup.
\<close>

definition authServerUrlFor :: "env \<Rightarrow> net_call list \<Rightarrow> string \<Rightarrow> string" where
  "authServerUrlFor env h url =
     (case discoverOAuthProtectedResourceMetadata env h url of
        Inl _ \<Rightarrow> url
      | Inr resourceMetadata \<Rightarrow>
          (case firstAuthorizationServer resourceMetadata of None \<Rightarrow> url | Some u \<Rightarrow> u))"

text \<open>The error with which the required authorization-server lookup fails, if it fails: the
  SDK's exception, or the module's own error when the SDK returns nothing.\<close>

definition lookupError :: "error + auth_server_metadata option \<Rightarrow> error option" where
  "lookupError answer =
     (case answer of
        Inl e \<Rightarrow> Some e
      | Inr None \<Rightarrow> Some (JsError ''OAuth metadata discovery returned no results'')
      | Inr (Some _) \<Rightarrow> None)"

text \<open>The dynamically registered client credentials stored for an integration.\<close>

definition storedClientCredentials :: "world \<Rightarrow> string \<Rightarrow> string option \<times> string option" where
  "storedClientCredentials w n =
     (case integrations w n of None \<Rightarrow> (None, None) | Some r \<Rightarrow> (oauthClientId r, oauthClientSecret r))"

text \<open>The number of refresh-token exchanges among the network calls.\<close>

fun isRefreshCall :: "net_call \<Rightarrow> bool" where
  "isRefreshCall (RefreshAuthorization _ _ _ _) = True"
| "isRefreshCall _ = False"

definition refreshCalls :: "net_call list \<Rightarrow> nat" where
  "refreshCalls tr = length (filter isRefreshCall tr)"

text \<open>The lifetime, in milliseconds, that \<^verbatim>\<open>calculateTokenExpiration\<close> adds to the clock.\<close>

definition lifetimeMs :: "int option \<Rightarrow> int" where
  "lifetimeMs expiresIn =
     (case expiresIn of
        None \<Rightarrow> DEFAULT_TOKEN_EXPIRY_MS
      | Some n \<Rightarrow> if n = 0 then DEFAULT_TOKEN_EXPIRY_MS else n * 1000)"

text \<open>The rows of the connection table with the given unique pair.\<close>

definition connectionsFor :: "string \<Rightarrow> nat \<Rightarrow> mcp_connection list \<Rightarrow> mcp_connection list" where
  "connectionsFor emailAccountId integrationId cs =
     filter (\<lambda>c. conn_emailAccountId c = emailAccountId \<and> conn_integrationId c = integrationId) cs"

text \<open>An operation keeps an observation of the world when the observation has the same
  value before and after, whatever the outcome.\<close>

definition keeps :: "(world \<Rightarrow> 'b) \<Rightarrow> 'a io \<Rightarrow> bool" where
  "keeps g m = (\<forall>w. g (snd (m w)) = g w)"

text \<open>What client and metadata resolution leave alone: the connection table and the
  number of refresh-token exchanges made.\<close>

definition quietView :: "world \<Rightarrow> mcp_connection list \<times> nat" where
  "quietView w = (connections w, refreshCalls (trace w))"


text \<open>The world without its log, and the operations whose outcome does not depend on
  what has been logged.\<close>

definition noLogs ::
  "world \<Rightarrow> (string \<rightharpoonup> mcp_integration) \<times> mcp_connection list \<times> nat \<times> int \<times> net_call list" where
  "noLogs w = (integrations w, connections w, nextId w, clock w, trace w)"


section \<open>Rules for the effects\<close>

lemmas io_defs = io_return_def io_throw_def io_bind_def io_catch_def io_lift_def
  logger_def network_def dateNow_def newURL_def

lemmas js_defs = truthy_def ifTruthy_def js_or_def

lemmas db_defs = findUniqueIntegration_def upsertIntegrationRow_def upsertMcpIntegration_def
  connectionMatches_def findFirstConnection_def updateConnection_def upsertConnection_def
  updateIntegrationRow_def createIntegrationRow_def setUnlessUndefined_def noData_def

lemmas module_defs = getOAuthServerUrl_def createAuthServerMetadata_def
  calculateTokenExpiration_def firstAuthorizationServer_def cachedEndpoints_def
  protectedResourceStep_def authorizationServerStep_def fallbackStep_def discoverMetadata_def
  getMetadataForIntegration_def getOAuthClient_def refreshOAuthTokens_def
  getValidAccessToken_def handleOAuthCallback_def DEFAULT_TOKEN_EXPIRY_MS_def
  endsWith_def slice0_def lopt_def

lemmas concrete_defs = acmeConfig_def acmeFallback_def acmeMetadata_def acmeEnv_def
  brokenEnv_def emptyWorld_def acmeRow_def acmeConnection_def connectedWorld_def acmeTokens_def

lemmas spec_defs = authServerUrlFor_def lookupError_def storedClientCredentials_def
  refreshCalls_def lifetimeMs_def connectionsFor_def

lemmas run_defs = module_defs io_defs db_defs js_defs concrete_defs spec_defs Let_def

lemma io_bind_Inr: "fst (m w) = Inr x \<Longrightarrow> io_bind m f w = f x (snd (m w))"
  by (cases "m w") (simp add: io_bind_def)


lemma io_catch_Inr: "fst (m w) = Inr x \<Longrightarrow> io_catch m h w = m w"
  by (cases "m w") (simp add: io_catch_def)

lemma io_catch_Inl: "fst (m w) = Inl e \<Longrightarrow> io_catch m h w = h e (snd (m w))"
  by (cases "m w") (simp add: io_catch_def)


lemma pair_fst_snd: "fst p = a \<Longrightarrow> p = (a, snd p)"
  by (cases p) simp

lemma io_bind_logger:
  "io_bind (logger l m c) f w = f () (w\<lparr>logs := logs w @ [(l, m, c)]\<rparr>)"
  by (simp add: io_bind_def logger_def)

lemma io_bind_network:
  "answer (trace w) = Inr x \<Longrightarrow>
   io_bind (network env c answer) f w =
     f x (w\<lparr>trace := trace w @ [c], clock := clock w + int (latency env (trace w @ [c]))\<rparr>)"
  by (simp add: io_bind_def network_def)

lemma io_bind_upsertIntegrationRow:
  "io_bind (upsertIntegrationRow i d) f w =
     (case integrations w i of
        Some r \<Rightarrow>
          f (updateIntegrationRow d r)
            (w\<lparr>integrations := (integrations w)(i \<mapsto> updateIntegrationRow d r)\<rparr>)
      | None \<Rightarrow>
          f (createIntegrationRow (nextId w) d)
            (w\<lparr>integrations := (integrations w)(i \<mapsto> createIntegrationRow (nextId w) d),
               nextId := Suc (nextId w)\<rparr>))"
  by (simp add: io_bind_def upsertIntegrationRow_def split: option.splits)

lemma io_bind_upsertConnection:
  "io_bind (upsertConnection e iid upd create) f w = f () (snd (upsertConnection e iid upd create w))"
  by (rule io_bind_Inr) (simp add: upsertConnection_def)

lemma io_bind_updateConnection:
  "list_ex (\<lambda>c. conn_id c = cid \<and> conn_emailAccountId c = e) (connections w) \<Longrightarrow>
   io_bind (updateConnection cid e upd) f w =
     f () (w\<lparr>connections :=
              map (\<lambda>c. if conn_id c = cid \<and> conn_emailAccountId c = e then upd c else c)
                (connections w)\<rparr>)"
  by (simp add: io_bind_def updateConnection_def)

lemma upsertConnection_snd:
  "connections (snd (upsertConnection e iid upd create w)) =
     (if list_ex (\<lambda>c. conn_emailAccountId c = e \<and> conn_integrationId c = iid) (connections w)
      then map (\<lambda>c. if conn_emailAccountId c = e \<and> conn_integrationId c = iid then upd c else c)
             (connections w)
      else connections w @ [create (nextId w)])"
  "integrations (snd (upsertConnection e iid upd create w)) = integrations w"
  "clock (snd (upsertConnection e iid upd create w)) = clock w"
  "trace (snd (upsertConnection e iid upd create w)) = trace w"
  "nextId (snd (upsertConnection e iid upd create w)) =
     (if list_ex (\<lambda>c. conn_emailAccountId c = e \<and> conn_integrationId c = iid) (connections w)
      then nextId w else Suc (nextId w))"
  by (simp_all add: upsertConnection_def)

lemma find_SomeD': "List.find P xs = Some x \<Longrightarrow> P x \<and> x \<in> set xs"
  by (induction xs) (auto split: if_splits)

lemma filter_map_update:
  "(\<And>c. P (u c) = P c) \<Longrightarrow> filter P (map (\<lambda>c. if P c then u c else c) xs) = map u (filter P xs)"
  by (induction xs) auto

lemma list_ex_filter: "list_ex P xs \<longleftrightarrow> filter P xs \<noteq> []"
  by (induction xs) auto

subsection \<open>Observations that an operation keeps\<close>

lemma keepsD: "keeps g m \<Longrightarrow> g (snd (m w)) = g w"
  by (simp add: keeps_def)

lemma keeps_return: "keeps g (io_return x)"
  by (simp add: keeps_def io_return_def)

lemma keeps_throw: "keeps g (io_throw e)"
  by (simp add: keeps_def io_throw_def)

lemma keeps_lift: "keeps g (io_lift r)"
  by (simp add: keeps_def io_lift_def)

lemma keeps_bind: "keeps g m \<Longrightarrow> (\<And>x. keeps g (f x)) \<Longrightarrow> keeps g (io_bind m f)"
  unfolding keeps_def io_bind_def
  by (auto split: prod.splits sum.splits) (metis snd_conv)+

lemma keeps_catch: "keeps g m \<Longrightarrow> (\<And>e. keeps g (h e)) \<Longrightarrow> keeps g (io_catch m h)"
  unfolding keeps_def io_catch_def
  by (auto split: prod.splits sum.splits) (metis snd_conv)+

lemma keeps_findUniqueIntegration: "keeps g (findUniqueIntegration i)"
  by (simp add: keeps_def findUniqueIntegration_def)

lemma keeps_findFirstConnection: "keeps g (findFirstConnection e i)"
  by (simp add: keeps_def findFirstConnection_def)

lemma keeps_dateNow: "keeps g dateNow"
  by (simp add: keeps_def dateNow_def)

lemma keeps_newURL: "keeps g (newURL env s)"
  by (simp add: newURL_def keeps_return keeps_throw split: option.splits)

lemmas keeps_pure = keeps_return keeps_throw keeps_lift keeps_bind keeps_catch
  keeps_findUniqueIntegration keeps_findFirstConnection keeps_dateNow keeps_newURL

lemma keeps_creds_logger: "keeps (\<lambda>w. storedClientCredentials w n) (logger l m c)"
  by (simp add: keeps_def logger_def storedClientCredentials_def)

lemma keeps_creds_network: "keeps (\<lambda>w. storedClientCredentials w n) (network env c a)"
  by (simp add: keeps_def network_def storedClientCredentials_def)

lemma keeps_creds_upsert:
  "d_oauthClientId d = None \<Longrightarrow> d_oauthClientSecret d = None \<Longrightarrow>
   keeps (\<lambda>w. storedClientCredentials w n) (upsertMcpIntegration i d)"
  by (simp add: keeps_def upsertMcpIntegration_def upsertIntegrationRow_def
      storedClientCredentials_def updateIntegrationRow_def createIntegrationRow_def
      setUnlessUndefined_def split: option.splits)

lemmas keeps_creds = keeps_pure keeps_creds_logger keeps_creds_network

lemma keeps_quiet_logger: "keeps quietView (logger l m c)"
  by (simp add: keeps_def logger_def quietView_def)

lemma keeps_quiet_network: "\<not> isRefreshCall c \<Longrightarrow> keeps quietView (network env c a)"
  by (simp add: keeps_def network_def quietView_def refreshCalls_def)

lemma keeps_quiet_upsert: "keeps quietView (upsertMcpIntegration i d)"
  by (simp add: keeps_def upsertMcpIntegration_def upsertIntegrationRow_def quietView_def
      split: option.splits)

lemmas keeps_quiet = keeps_pure keeps_quiet_logger keeps_quiet_network keeps_quiet_upsert

lemma quietViewD:
  "keeps quietView m \<Longrightarrow> connections (snd (m w)) = connections w \<and>
     refreshCalls (trace (snd (m w))) = refreshCalls (trace w)"
  using keepsD [of quietView m w] by (simp add: quietView_def)



section \<open>Token expiry\<close>

lemma calculateTokenExpiration_fst:
  "fst (calculateTokenExpiration expiresIn i r w) = Inr (clock w + lifetimeMs expiresIn)"
  by (simp add: calculateTokenExpiration_def lifetimeMs_def io_defs split: option.splits)

lemma calculateTokenExpiration_snd:
  "connections (snd (calculateTokenExpiration expiresIn i r w)) = connections w \<and>
   trace (snd (calculateTokenExpiration expiresIn i r w)) = trace w \<and>
   clock (snd (calculateTokenExpiration expiresIn i r w)) = clock w \<and>
   integrations (snd (calculateTokenExpiration expiresIn i r w)) = integrations w \<and>
   nextId (snd (calculateTokenExpiration expiresIn i r w)) = nextId w"
  by (simp add: calculateTokenExpiration_def io_defs split: option.splits)

lemma io_bind_calculateTokenExpiration:
  "io_bind (calculateTokenExpiration x i r) f w =
     f (clock w + lifetimeMs x) (snd (calculateTokenExpiration x i r w))"
  by (rule io_bind_Inr) (rule calculateTokenExpiration_fst)


section \<open>Metadata discovery\<close>

lemma protectedResourceStep_fst:
  "fst (protectedResourceStep env u i w) = Inr (authServerUrlFor env (trace w) u)"
  by (simp add: protectedResourceStep_def authServerUrlFor_def io_defs
      split: sum.splits option.splits)

lemma protectedResourceStep_trace:
  "trace (snd (protectedResourceStep env u i w)) = trace w @ [DiscoverProtectedResource u]"
  by (simp add: protectedResourceStep_def io_defs split: sum.splits option.splits)

lemma protectedResourceStep_integrations:
  "integrations (snd (protectedResourceStep env u i w)) = integrations w"
  by (simp add: protectedResourceStep_def io_defs split: sum.splits option.splits)

lemma authorizationServerStep_trace:
  "trace (snd (authorizationServerStep env u i au w)) = trace w @ [DiscoverAuthorizationServer au]"
  by (simp add: authorizationServerStep_def io_defs upsertMcpIntegration_def
      upsertIntegrationRow_def split: sum.splits option.splits)

lemma authorizationServerStep_found:
  "discoverAuthorizationServerMetadata env (trace w) au = Inr (Some md) \<Longrightarrow>
   fst (authorizationServerStep env u i au w) = Inr md"
  by (simp add: authorizationServerStep_def io_defs upsertMcpIntegration_def
      upsertIntegrationRow_def split: sum.splits option.splits)

lemma authorizationServerStep_failed:
  "lookupError (discoverAuthorizationServerMetadata env (trace w) au) = Some err \<Longrightarrow>
   fst (authorizationServerStep env u i au w) = Inl err \<and>
   integrations (snd (authorizationServerStep env u i au w)) = integrations w"
  by (auto simp: authorizationServerStep_def io_defs lookupError_def
      split: sum.splits option.splits)

lemma fallbackStep_trace: "trace (snd (fallbackStep cfg u i err w)) = trace w"
  by (simp add: fallbackStep_def io_defs upsertMcpIntegration_def upsertIntegrationRow_def Let_def
      split: option.splits)

lemma fallbackStep_none:
  "oauthConfig cfg = None \<Longrightarrow>
   fallbackStep cfg u i err w =
     (Inl (JsError (''Could not discover OAuth endpoints for '' @ i @
             ''. Server may not support OAuth discovery and no fallback config is available.'')),
      w\<lparr>logs := logs w @
         [(LogWarn, ''Failed to discover OAuth metadata, trying fallback config'',
           [(''error'', LErr err), (''integration'', LStr i)]),
          (LogError, ''No fallback OAuth config available'',
           [(''error'', LErr err), (''integration'', LStr i)])]\<rparr>)"
  by (simp add: fallbackStep_def io_defs)

lemma fallbackStep_config:
  assumes "oauthConfig cfg = Some oc"
  shows "fst (fallbackStep cfg u i err w) =
           Inr (createAuthServerMetadata u (oc_authorization_endpoint oc) (oc_token_endpoint oc)
                  (oc_registration_endpoint oc))"
    and "\<exists>r. integrations (snd (fallbackStep cfg u i err w)) i = Some r \<and>
             registeredAuthorizationUrl r = Some (oc_authorization_endpoint oc) \<and>
             registeredTokenUrl r = Some (oc_token_endpoint oc) \<and>
             registeredServerUrl r = Some u"
  using assms
  by (simp_all add: fallbackStep_def io_defs upsertMcpIntegration_def upsertIntegrationRow_def
      updateIntegrationRow_def createIntegrationRow_def setUnlessUndefined_def noData_def
      createAuthServerMetadata_def Let_def split: option.splits)

lemma discoverMetadata_miss:
  assumes "getIntegration env i = Inr cfg" and "cachedEndpoints (integrations w i) u = None"
  shows "discoverMetadata env u i w =
     io_catch
       (io_bind (protectedResourceStep env u i) (authorizationServerStep env u i))
       (fallbackStep cfg u i)
       (w\<lparr>logs := logs w @ [(LogInfo, ''Discovering OAuth metadata from server'',
                              [(''integration'', LStr i), (''serverUrl'', LStr u)])]\<rparr>)"
  using assms
  by (simp add: discoverMetadata_def findUniqueIntegration_def io_lift_def io_bind_def logger_def)

lemma discoverMetadata_hit:
  assumes "getIntegration env i = Inr cfg" and "cachedEndpoints (integrations w i) u = Some (a, t)"
  shows "discoverMetadata env u i w =
     (Inr (createAuthServerMetadata u a t None),
      w\<lparr>logs := logs w @ [(LogInfo, ''Using cached OAuth metadata'', [(''integration'', LStr i)])]\<rparr>)"
  using assms
  by (simp add: discoverMetadata_def findUniqueIntegration_def io_lift_def io_bind_def logger_def
      io_return_def)

lemma cachedEndpoints_None:
  "(\<forall>r. stored = Some r \<longrightarrow> registeredServerUrl r \<noteq> Some u) \<Longrightarrow> cachedEndpoints stored u = None"
  by (auto simp: cachedEndpoints_def split: option.splits)

lemma discoverMetadata_live_trace:
  assumes "getIntegration env i = Inr cfg" and "cachedEndpoints (integrations w i) u = None"
  shows "trace (snd (discoverMetadata env u i w)) =
           trace w @ [DiscoverProtectedResource u,
                      DiscoverAuthorizationServer (authServerUrlFor env (trace w) u)]"
proof -
  let ?w0 = "w\<lparr>logs := logs w @ [(LogInfo, ''Discovering OAuth metadata from server'',
                              [(''integration'', LStr i), (''serverUrl'', LStr u)])]\<rparr>"
  let ?m = "io_bind (protectedResourceStep env u i) (authorizationServerStep env u i)"
  have p: "fst (protectedResourceStep env u i ?w0) = Inr (authServerUrlFor env (trace w) u)"
    using protectedResourceStep_fst [of env u i ?w0] by simp
  have m: "?m ?w0 = authorizationServerStep env u i (authServerUrlFor env (trace w) u)
                      (snd (protectedResourceStep env u i ?w0))"
    using p by (rule io_bind_Inr [of "protectedResourceStep env u i"])
  have tm: "trace (snd (?m ?w0)) =
     trace w @ [DiscoverProtectedResource u,
                DiscoverAuthorizationServer (authServerUrlFor env (trace w) u)]"
    by (simp add: m authorizationServerStep_trace protectedResourceStep_trace)
  show ?thesis
  proof (cases "fst (?m ?w0)")
    case (Inl e)
    then show ?thesis
      by (simp add: discoverMetadata_miss [OF assms] io_catch_Inl fallbackStep_trace tm)
  next
    case (Inr md)
    then show ?thesis
      by (simp add: discoverMetadata_miss [OF assms] io_catch_Inr tm)
  qed
qed

lemma discoverMetadata_live_found:
  assumes "getIntegration env i = Inr cfg" and "cachedEndpoints (integrations w i) u = None"
    and "discoverAuthorizationServerMetadata env (trace w @ [DiscoverProtectedResource u])
           (authServerUrlFor env (trace w) u) = Inr (Some md)"
  shows "fst (discoverMetadata env u i w) = Inr md"
proof -
  let ?w0 = "w\<lparr>logs := logs w @ [(LogInfo, ''Discovering OAuth metadata from server'',
                              [(''integration'', LStr i), (''serverUrl'', LStr u)])]\<rparr>"
  let ?m = "io_bind (protectedResourceStep env u i) (authorizationServerStep env u i)"
  have p: "fst (protectedResourceStep env u i ?w0) = Inr (authServerUrlFor env (trace w) u)"
    using protectedResourceStep_fst [of env u i ?w0] by simp
  have m: "?m ?w0 = authorizationServerStep env u i (authServerUrlFor env (trace w) u)
                      (snd (protectedResourceStep env u i ?w0))"
    using p by (rule io_bind_Inr [of "protectedResourceStep env u i"])
  have "fst (?m ?w0) = Inr md"
    using assms(3) by (simp add: m authorizationServerStep_found protectedResourceStep_trace)
  then show ?thesis
    by (simp add: discoverMetadata_miss [OF assms(1,2)] io_catch_Inr)
qed

lemma discoverMetadata_runs_fallbackStep:
  assumes "getIntegration env i = Inr cfg" and "cachedEndpoints (integrations w i) u = None"
    and "lookupError (discoverAuthorizationServerMetadata env
           (trace w @ [DiscoverProtectedResource u]) (authServerUrlFor env (trace w) u)) = Some err"
  shows "\<exists>w1. discoverMetadata env u i w = fallbackStep cfg u i err w1"
proof -
  let ?w0 = "w\<lparr>logs := logs w @ [(LogInfo, ''Discovering OAuth metadata from server'',
                              [(''integration'', LStr i), (''serverUrl'', LStr u)])]\<rparr>"
  let ?m = "io_bind (protectedResourceStep env u i) (authorizationServerStep env u i)"
  have p: "fst (protectedResourceStep env u i ?w0) = Inr (authServerUrlFor env (trace w) u)"
    using protectedResourceStep_fst [of env u i ?w0] by simp
  have m: "?m ?w0 = authorizationServerStep env u i (authServerUrlFor env (trace w) u)
                      (snd (protectedResourceStep env u i ?w0))"
    using p by (rule io_bind_Inr [of "protectedResourceStep env u i"])
  have "fst (?m ?w0) = Inl err"
    using assms(3) by (simp add: m authorizationServerStep_failed protectedResourceStep_trace)
  then have "discoverMetadata env u i w = fallbackStep cfg u i err (snd (?m ?w0))"
    by (simp add: discoverMetadata_miss [OF assms(1,2)] io_catch_Inl)
  then show ?thesis ..
qed

lemma protectedResourceStep_keeps_creds:
  "keeps (\<lambda>w. storedClientCredentials w n) (protectedResourceStep env u i)"
  unfolding protectedResourceStep_def
  by (auto intro!: keeps_creds split: option.splits)

lemma authorizationServerStep_keeps_creds:
  "keeps (\<lambda>w. storedClientCredentials w n) (authorizationServerStep env u i au)"
  unfolding authorizationServerStep_def
  by (auto intro!: keeps_creds keeps_creds_upsert simp: noData_def split: option.splits)

lemma fallbackStep_keeps_creds:
  "keeps (\<lambda>w. storedClientCredentials w n) (fallbackStep cfg u i err)"
  unfolding fallbackStep_def Let_def
  by (auto intro!: keeps_creds keeps_creds_upsert simp: noData_def split: option.splits)

lemma discoverMetadata_keeps_creds:
  "keeps (\<lambda>w. storedClientCredentials w n) (discoverMetadata env u i)"
  unfolding discoverMetadata_def
  by (auto intro!: keeps_creds protectedResourceStep_keeps_creds
      authorizationServerStep_keeps_creds fallbackStep_keeps_creds split: option.splits)

lemma upsert_discovery_fields:
  "integrations w i = Some r \<Longrightarrow>
   snd (upsertMcpIntegration i
          (noData\<lparr>d_registeredAuthorizationUrl := Some a, d_registeredTokenUrl := Some t,
                   d_registeredServerUrl := Some u\<rparr>) w) =
   w\<lparr>integrations := (integrations w)(i \<mapsto>
        r\<lparr>registeredAuthorizationUrl := Some a, registeredTokenUrl := Some t,
          registeredServerUrl := Some u\<rparr>)\<rparr>"
  by (simp add: upsertMcpIntegration_def upsertIntegrationRow_def updateIntegrationRow_def
      setUnlessUndefined_def noData_def)

lemma protectedResourceStep_keeps_quiet: "keeps quietView (protectedResourceStep env u i)"
  unfolding protectedResourceStep_def
  by (auto intro!: keeps_quiet split: option.splits)

lemma authorizationServerStep_keeps_quiet: "keeps quietView (authorizationServerStep env u i au)"
  unfolding authorizationServerStep_def
  by (auto intro!: keeps_quiet split: option.splits)

lemma fallbackStep_keeps_quiet: "keeps quietView (fallbackStep cfg u i err)"
  unfolding fallbackStep_def Let_def
  by (auto intro!: keeps_quiet split: option.splits)

lemma discoverMetadata_keeps_quiet: "keeps quietView (discoverMetadata env u i)"
  unfolding discoverMetadata_def
  by (auto intro!: keeps_quiet protectedResourceStep_keeps_quiet
      authorizationServerStep_keeps_quiet fallbackStep_keeps_quiet split: option.splits)

lemma getMetadataForIntegration_keeps_quiet:
  "keeps quietView (getMetadataForIntegration env cfg i)"
  by (simp add: getMetadataForIntegration_def discoverMetadata_keeps_quiet)

lemma getOAuthClient_keeps_quiet: "keeps quietView (getOAuthClient env i r)"
  unfolding getOAuthClient_def Let_def
  by (auto intro!: keeps_quiet discoverMetadata_keeps_quiet split: option.splits)

subsection \<open>The log does not influence client and metadata resolution\<close>



lemma noLogs_update [simp]: "noLogs (w\<lparr>logs := l\<rparr>) = noLogs w"
  by (simp add: noLogs_def)

















section \<open>Refresh and code exchange\<close>


lemma refreshOAuthTokens_resolved:
  assumes cfg: "getIntegration env i = Inr cfg" and url: "ifTruthy (serverUrl cfg) = Some url"
    and c: "fst (findFirstConnection e i w) = Inr (Some c)"
    and rt: "ifTruthy (refreshToken c) = Some rt"
    and cl: "fst (getOAuthClient env i None w) = Inr cl"
    and md: "fst (getMetadataForIntegration env cfg i (snd (getOAuthClient env i None w))) = Inr md"
    and res: "parseURL env url = Some res"
    and w3: "w3 = snd (getMetadataForIntegration env cfg i (snd (getOAuthClient env i None w)))"
  shows "refreshOAuthTokens env i e w =
     io_bind (network env (RefreshAuthorization (token_endpoint md) cl rt res)
                (\<lambda>h. refreshAuthorization env h (token_endpoint md) md cl rt res))
       (\<lambda>tokens.
          io_bind (calculateTokenExpiration (expires_in tokens) i True)
            (\<lambda>expiry.
          io_bind
            (updateConnection (conn_id c) e
               (\<lambda>c. c\<lparr>accessToken := Some (access_token tokens),
                        refreshToken := js_or (refresh_token tokens) (Some rt),
                        expiresAt := Some expiry\<rparr>))
            (\<lambda>_.
          io_bind
            (logger LogInfo ''OAuth tokens refreshed''
               [(''integration'', LStr i), (''emailAccountId'', LStr e)])
            (\<lambda>_. io_return tokens)))) w3"
proof -
  note e1 = pair_fst_snd [OF cl] pair_fst_snd [OF md]
  have find: "List.find (connectionMatches w e i) (connections w) = Some c"
    using c by (simp add: findFirstConnection_def)
  show ?thesis
    unfolding refreshOAuthTokens_def
    apply (subst io_bind_def)
    apply (simp add: io_lift_def cfg url)
    apply (subst io_bind_def)
    apply (simp add: findFirstConnection_def find rt)
    apply (subst io_bind_def)
    apply (subst e1(1))
    apply simp
    apply (subst io_bind_def)
    apply (subst e1(2))
    apply (simp add: w3)
    apply (subst io_bind_def)
    apply (simp add: newURL_def res io_return_def)
    done
qed

lemma refreshOAuthTokens_effect:
  assumes ok: "fst (refreshOAuthTokens env i e w) = Inr tokens"
    and cfg: "getIntegration env i = Inr cfg" and url: "ifTruthy (serverUrl cfg) = Some url"
    and c: "fst (findFirstConnection e i w) = Inr (Some c)"
    and rt: "ifTruthy (refreshToken c) = Some rt"
    and cl: "fst (getOAuthClient env i None w) = Inr cl"
    and md: "fst (getMetadataForIntegration env cfg i (snd (getOAuthClient env i None w))) = Inr md"
    and res: "parseURL env url = Some res"
    and w3: "w3 = snd (getMetadataForIntegration env cfg i (snd (getOAuthClient env i None w)))"
    and ans: "refreshAuthorization env (trace w3) (token_endpoint md) md cl rt res = Inr tokens"
  shows "trace (snd (refreshOAuthTokens env i e w)) =
           trace w3 @ [RefreshAuthorization (token_endpoint md) cl rt res]"
    and "connections (snd (refreshOAuthTokens env i e w)) =
           map (\<lambda>x. if conn_id x = conn_id c \<and> conn_emailAccountId x = e
                     then x\<lparr>accessToken := Some (access_token tokens),
                            refreshToken := js_or (refresh_token tokens) (Some rt),
                            expiresAt := Some (clock (snd (refreshOAuthTokens env i e w)) +
                                               lifetimeMs (expires_in tokens))\<rparr>
                     else x) (connections w3)"
proof -
  have run: "refreshOAuthTokens env i e w =
     io_bind (network env (RefreshAuthorization (token_endpoint md) cl rt res)
                (\<lambda>h. refreshAuthorization env h (token_endpoint md) md cl rt res))
       (\<lambda>tokens.
          io_bind (calculateTokenExpiration (expires_in tokens) i True)
            (\<lambda>expiry.
          io_bind
            (updateConnection (conn_id c) e
               (\<lambda>c. c\<lparr>accessToken := Some (access_token tokens),
                        refreshToken := js_or (refresh_token tokens) (Some rt),
                        expiresAt := Some expiry\<rparr>))
            (\<lambda>_.
          io_bind
            (logger LogInfo ''OAuth tokens refreshed''
               [(''integration'', LStr i), (''emailAccountId'', LStr e)])
            (\<lambda>_. io_return tokens)))) w3"
    by (rule refreshOAuthTokens_resolved [OF cfg url c rt cl md res w3])
  have both: "trace (snd (refreshOAuthTokens env i e w)) =
           trace w3 @ [RefreshAuthorization (token_endpoint md) cl rt res] \<and>
     connections (snd (refreshOAuthTokens env i e w)) =
           map (\<lambda>x. if conn_id x = conn_id c \<and> conn_emailAccountId x = e
                     then x\<lparr>accessToken := Some (access_token tokens),
                            refreshToken := js_or (refresh_token tokens) (Some rt),
                            expiresAt := Some (clock (snd (refreshOAuthTokens env i e w)) +
                                               lifetimeMs (expires_in tokens))\<rparr>
                     else x) (connections w3)"
    using ok unfolding run
    by (auto simp: io_defs ans calculateTokenExpiration_def lifetimeMs_def updateConnection_def
        split: option.splits if_splits)
  from both show "trace (snd (refreshOAuthTokens env i e w)) =
           trace w3 @ [RefreshAuthorization (token_endpoint md) cl rt res]" by simp
  from both show "connections (snd (refreshOAuthTokens env i e w)) =
           map (\<lambda>x. if conn_id x = conn_id c \<and> conn_emailAccountId x = e
                     then x\<lparr>accessToken := Some (access_token tokens),
                            refreshToken := js_or (refresh_token tokens) (Some rt),
                            expiresAt := Some (clock (snd (refreshOAuthTokens env i e w)) +
                                               lifetimeMs (expires_in tokens))\<rparr>
                     else x) (connections w3)" by simp
qed

lemma refreshOAuthTokens_returns:
  assumes cfg: "getIntegration env i = Inr cfg" and url: "ifTruthy (serverUrl cfg) = Some url"
    and c: "fst (findFirstConnection e i w) = Inr (Some c)"
    and rt: "ifTruthy (refreshToken c) = Some rt"
    and cl: "fst (getOAuthClient env i None w) = Inr cl"
    and md: "fst (getMetadataForIntegration env cfg i (snd (getOAuthClient env i None w))) = Inr md"
    and res: "parseURL env url = Some res"
    and w3: "w3 = snd (getMetadataForIntegration env cfg i (snd (getOAuthClient env i None w)))"
    and ans: "refreshAuthorization env (trace w3) (token_endpoint md) md cl rt res = Inr tokens"
  shows "fst (refreshOAuthTokens env i e w) = Inr tokens"
proof -
  have q: "connections w3 = connections w"
    unfolding w3
    using quietViewD [OF getMetadataForIntegration_keeps_quiet, of env cfg i "snd (getOAuthClient env i None w)"]
      quietViewD [OF getOAuthClient_keeps_quiet, of env i None w]
    by simp
  have f: "connectionMatches w e i c \<and> c \<in> set (connections w)"
    using c by (simp add: findFirstConnection_def find_SomeD')
  then have ex: "list_ex (\<lambda>x. conn_id x = conn_id c \<and> conn_emailAccountId x = e) (connections w)"
    by (auto simp: list_ex_iff connectionMatches_def)
  have ans': "refreshAuthorization env (trace w3) (token_endpoint md) md cl rt res = Inr tokens"
    by (rule ans)
  show ?thesis
    unfolding refreshOAuthTokens_resolved [OF cfg url c rt cl md res w3]
    by (simp add: io_bind_network ans' io_bind_calculateTokenExpiration io_bind_updateConnection
        calculateTokenExpiration_snd q ex io_bind_logger io_return_def)
qed










lemma handleOAuthCallback_steps:
  assumes "fst (handleOAuthCallback env i code ver uri e w) = Inr tokens"
  shows "\<exists>cfg url cl md res.
     getIntegration env i = Inr cfg \<and> ifTruthy (serverUrl cfg) = Some url \<and>
     fst (getOAuthClient env i (Some uri) w) = Inr cl \<and>
     fst (getMetadataForIntegration env cfg i (snd (getOAuthClient env i (Some uri) w))) = Inr md \<and>
     parseURL env url = Some res \<and>
     exchangeAuthorization env
       (trace (snd (getMetadataForIntegration env cfg i (snd (getOAuthClient env i (Some uri) w)))))
       (token_endpoint md) md cl code ver uri res = Inr tokens"
  using assms unfolding handleOAuthCallback_def
  by (auto simp: io_defs split: sum.splits option.splits prod.splits if_splits)

lemma handleOAuthCallback_effect:
  assumes ok: "fst (handleOAuthCallback env i code ver uri e w) = Inr tokens"
  shows "\<exists>row.
     integrations (snd (handleOAuthCallback env i code ver uri e w)) i = Some row \<and>
     connections (snd (handleOAuthCallback env i code ver uri e w)) =
       (if list_ex (\<lambda>c. conn_emailAccountId c = e \<and> conn_integrationId c = mi_id row)
             (connections w)
        then map (\<lambda>c. if conn_emailAccountId c = e \<and> conn_integrationId c = mi_id row
                       then c\<lparr>accessToken := Some (access_token tokens),
                              refreshToken :=
                                setUnlessUndefined (ifTruthy (refresh_token tokens)) (refreshToken c),
                              expiresAt :=
                                Some (clock (snd (handleOAuthCallback env i code ver uri e w)) +
                                      lifetimeMs (expires_in tokens)),
                              isActive := True\<rparr>
                       else c) (connections w)
        else connections w @
             [\<lparr>conn_id = nextId (snd (handleOAuthCallback env i code ver uri e w)) - 1,
               conn_name = i, conn_emailAccountId = e,
               conn_integrationId = mi_id row,
               accessToken = Some (access_token tokens),
               refreshToken = ifTruthy (refresh_token tokens),
               expiresAt = Some (clock (snd (handleOAuthCallback env i code ver uri e w)) +
                                 lifetimeMs (expires_in tokens)),
               isActive = True, apiKey = None\<rparr>])"
proof -
  from handleOAuthCallback_steps [OF ok] obtain cfg url cl md res where
    cfg: "getIntegration env i = Inr cfg" and url: "ifTruthy (serverUrl cfg) = Some url"
    and cl: "fst (getOAuthClient env i (Some uri) w) = Inr cl"
    and md: "fst (getMetadataForIntegration env cfg i (snd (getOAuthClient env i (Some uri) w))) = Inr md"
    and res: "parseURL env url = Some res"
    and ans0: "exchangeAuthorization env
       (trace (snd (getMetadataForIntegration env cfg i (snd (getOAuthClient env i (Some uri) w)))))
       (token_endpoint md) md cl code ver uri res = Inr tokens"
    by blast
  define w3 where "w3 = snd (getMetadataForIntegration env cfg i (snd (getOAuthClient env i (Some uri) w)))"
  note ans = ans0 [folded w3_def]
  have q: "connections w3 = connections w"
    unfolding w3_def
    using quietViewD [OF getMetadataForIntegration_keeps_quiet, of env cfg i "snd (getOAuthClient env i (Some uri) w)"]
      quietViewD [OF getOAuthClient_keeps_quiet, of env i "Some uri" w]
    by simp
  note e1 = pair_fst_snd [OF cl] pair_fst_snd [OF md]
  have run: "handleOAuthCallback env i code ver uri e w =
     io_bind
       (network env (ExchangeAuthorization (token_endpoint md) cl code ver uri res)
          (\<lambda>h. exchangeAuthorization env h (token_endpoint md) md cl code ver uri res))
       (\<lambda>tokens.
     io_bind (upsertIntegrationRow i noData) (\<lambda>dbIntegration.
     io_bind (calculateTokenExpiration (expires_in tokens) i False) (\<lambda>expiry.
     io_bind
       (upsertConnection e (mi_id dbIntegration)
          (\<lambda>c. c\<lparr>accessToken := Some (access_token tokens),
                   refreshToken :=
                     setUnlessUndefined (ifTruthy (refresh_token tokens)) (refreshToken c),
                   expiresAt := Some expiry,
                   isActive := True\<rparr>)
          (\<lambda>n. \<lparr>conn_id = n, conn_name = i, conn_emailAccountId = e,
                 conn_integrationId = mi_id dbIntegration,
                 accessToken = Some (access_token tokens),
                 refreshToken = ifTruthy (refresh_token tokens),
                 expiresAt = Some expiry,
                 isActive = True, apiKey = None\<rparr>))
       (\<lambda>_.
     io_bind
       (logger LogInfo ''OAuth callback completed''
          [(''integration'', LStr i), (''emailAccountId'', LStr e),
           (''hasRefreshToken'', LBool (truthy (refresh_token tokens)))])
       (\<lambda>_. io_return tokens))))) w3"
    unfolding handleOAuthCallback_def
    apply (subst io_bind_def)
    apply (simp add: io_lift_def cfg url)
    apply (subst io_bind_def)
    apply (subst e1(1))
    apply simp
    apply (subst io_bind_def)
    apply (subst e1(2))
    apply (simp add: w3_def)
    apply (subst io_bind_def)
    apply (simp add: newURL_def res io_return_def)
    done
  have ans': "exchangeAuthorization env (trace w3) (token_endpoint md) md cl code ver uri res =
      Inr tokens" by (rule ans)
  show ?thesis
  proof (cases "integrations w3 i")
    case None
    show ?thesis
      unfolding run
      by (rule exI [of _ "createIntegrationRow (nextId w3) noData"])
        (simp add: io_bind_network ans' io_bind_upsertIntegrationRow None
          io_bind_calculateTokenExpiration io_bind_upsertConnection io_bind_logger io_return_def
          calculateTokenExpiration_snd upsertConnection_snd q)
  next
    case (Some r)
    show ?thesis
      unfolding run
      by (rule exI [of _ "updateIntegrationRow noData r"])
        (simp add: io_bind_network ans' io_bind_upsertIntegrationRow Some
          io_bind_calculateTokenExpiration io_bind_upsertConnection io_bind_logger io_return_def
          calculateTokenExpiration_snd upsertConnection_snd q)
  qed
qed

section \<open>String helpers\<close>

lemma endsWith_iff: "endsWith s suf \<longleftrightarrow> (\<exists>b. s = b @ suf)"
proof
  assume "endsWith s suf"
  then have "s = take (length s - length suf) s @ suf"
    by (metis append_take_drop_id endsWith_def)
  then show "\<exists>b. s = b @ suf" ..
next
  assume "\<exists>b. s = b @ suf"
  then show "endsWith s suf" by (auto simp: endsWith_def)
qed

lemma slice0_append4: "length suf = 4 \<Longrightarrow> slice0 (b @ suf) (- 4) = b"
  by (simp add: slice0_def Let_def)

section \<open>The URL passed to discovery\<close>

text \<open>
  Claim C7. When the configured \<^verbatim>\<open>serverUrl\<close> ends with \<^verbatim>\<open>/mcp\<close>, the URL that
  \<^verbatim>\<open>getOAuthServerUrl\<close> computes, and that \<^verbatim>\<open>getMetadataForIntegration\<close> passes to
  \<^verbatim>\<open>discoverMetadata\<close>, is the \<^verbatim>\<open>serverUrl\<close> without these four characters; when it does
  not end with \<^verbatim>\<open>/mcp\<close>, the \<^verbatim>\<open>serverUrl\<close> itself is passed.
\<close>

theorem getOAuthServerUrl_mcp_suffix:
  "(serverUrl cfg = Some (base @ ''/mcp'') \<longrightarrow>
      getOAuthServerUrl cfg = base \<and>
      getMetadataForIntegration env cfg i = discoverMetadata env base i) \<and>
   (serverUrl cfg = Some s \<and> (\<forall>b. s \<noteq> b @ ''/mcp'') \<longrightarrow>
      getOAuthServerUrl cfg = s \<and>
      getMetadataForIntegration env cfg i = discoverMetadata env s i)"
proof (intro conjI impI)
  assume a: "serverUrl cfg = Some (base @ ''/mcp'')"
  have e: "endsWith (base @ ''/mcp'') ''/mcp''" by (simp add: endsWith_iff)
  show g: "getOAuthServerUrl cfg = base"
    using a e by (simp add: getOAuthServerUrl_def ifTruthy_def truthy_def slice0_append4)
  show "getMetadataForIntegration env cfg i = discoverMetadata env base i"
    by (simp add: getMetadataForIntegration_def g)
next
  assume a: "serverUrl cfg = Some s \<and> (\<forall>b. s \<noteq> b @ ''/mcp'')"
  then have ne: "\<not> endsWith s ''/mcp''" by (simp add: endsWith_iff)
  show g: "getOAuthServerUrl cfg = s"
    using a ne by (auto simp: getOAuthServerUrl_def ifTruthy_def truthy_def endsWith_def)
  show "getMetadataForIntegration env cfg i = discoverMetadata env s i"
    by (simp add: getMetadataForIntegration_def g)
qed

theorem getOAuthServerUrl_mcp_suffix_witness:
  "getOAuthServerUrl acmeConfig = ''https://mcp.acme.com'' \<and>
   getOAuthServerUrl (acmeConfig\<lparr>serverUrl := Some ''https://api.acme.com/v1''\<rparr>) =
     ''https://api.acme.com/v1''"
proof -
  have n: "\<forall>b. ''https://api.acme.com/v1'' \<noteq> b @ ''/mcp''"
    by (simp add: endsWith_iff [symmetric] endsWith_def)
  show ?thesis
    using getOAuthServerUrl_mcp_suffix
            [of acmeConfig "''https://mcp.acme.com''" _ _ "[]"]
          getOAuthServerUrl_mcp_suffix
            [of "acmeConfig\<lparr>serverUrl := Some ''https://api.acme.com/v1''\<rparr>" "[]" _ _
                "''https://api.acme.com/v1''"]
          n
    by (simp add: acmeConfig_def)
qed

section \<open>Valid access tokens\<close>




text \<open>
  Claim C10. When \<^verbatim>\<open>expiresAt\<close> equals the clock at the check, the token is not expired:
  the stored access token is returned and the world is unchanged.
\<close>

theorem getValidAccessToken_expiry_now:
  assumes "fst (findFirstConnection e i w) = Inr (Some c)"
    and "accessToken c = Some tok" and "tok \<noteq> []"
    and "expiresAt c = Some (clock w)"
  shows "getValidAccessToken env i e w = (Inr tok, w)"
  using assms
  by (simp add: getValidAccessToken_def findFirstConnection_def io_defs js_defs)

text \<open>The statement at concrete inputs.\<close>

theorem getValidAccessToken_expiry_now_witness:
  "expiresAt acmeConnection = Some (clock (connectedWorld\<lparr>clock := 999000\<rparr>)) \<and>
   getValidAccessToken (acmeEnv acmeConfig acmeTokens) ''acme'' ''user-1''
       (connectedWorld\<lparr>clock := 999000\<rparr>) =
     (Inr ''at-1'', connectedWorld\<lparr>clock := 999000\<rparr>)"
proof -
  have f: "fst (findFirstConnection ''user-1'' ''acme'' (connectedWorld\<lparr>clock := 999000\<rparr>)) =
      Inr (Some acmeConnection)"
    by (simp add: findFirstConnection_def connectionMatches_def connectedWorld_def
        acmeConnection_def acmeRow_def)
  have a: "accessToken acmeConnection = Some ''at-1''" "''at-1'' \<noteq> []"
    by (simp_all add: acmeConnection_def)
  have x: "expiresAt acmeConnection = Some (clock (connectedWorld\<lparr>clock := 999000\<rparr>))"
    by (simp add: acmeConnection_def)
  show ?thesis
    using getValidAccessToken_expiry_now [OF f a x] x by simp
qed

section \<open>The discovery cache and the fallback\<close>

text \<open>
  Claim C2. When the stored row of the integration has both cached endpoints (present,
  that is non-empty) and its \<^verbatim>\<open>registeredServerUrl\<close> is the URL being discovered,
  \<^verbatim>\<open>discoverMetadata\<close> returns the metadata whose issuer is that URL and whose
  authorization and token endpoints are the cached ones, with no registration endpoint,
  and makes no network call; the two tables are unchanged. When the row's
  \<^verbatim>\<open>registeredServerUrl\<close> is not that URL (or there is no row), it makes the two lookups of
  live discovery, first the protected-resource lookup at the URL, and returns the
  authorization server's metadata when that lookup yields one, whatever the row held.
\<close>

theorem discoverMetadata_cache:
  "(getIntegration env i = Inr cfg \<and> integrations w i = Some r \<and>
    registeredAuthorizationUrl r = Some a \<and> a \<noteq> [] \<and>
    registeredTokenUrl r = Some t \<and> t \<noteq> [] \<and> registeredServerUrl r = Some u \<longrightarrow>
      fst (discoverMetadata env u i w) =
        Inr \<lparr>issuer = u, authorization_endpoint = a, token_endpoint = t,
             registration_endpoint = None,
             grant_types_supported = Some [''authorization_code'', ''refresh_token''],
             response_types_supported = Some [''code''],
             token_endpoint_auth_methods_supported = Some [''none''],
             code_challenge_methods_supported = Some [''S256'', ''plain'']\<rparr> \<and>
      trace (snd (discoverMetadata env u i w)) = trace w \<and>
      integrations (snd (discoverMetadata env u i w)) = integrations w \<and>
      connections (snd (discoverMetadata env u i w)) = connections w) \<and>
   (getIntegration env i = Inr cfg \<and>
    (\<forall>r. integrations w i = Some r \<longrightarrow> registeredServerUrl r \<noteq> Some u) \<longrightarrow>
      trace (snd (discoverMetadata env u i w)) =
        trace w @ [DiscoverProtectedResource u,
                   DiscoverAuthorizationServer (authServerUrlFor env (trace w) u)] \<and>
      (\<forall>md. discoverAuthorizationServerMetadata env (trace w @ [DiscoverProtectedResource u])
              (authServerUrlFor env (trace w) u) = Inr (Some md) \<longrightarrow>
            fst (discoverMetadata env u i w) = Inr md))"
proof (intro conjI impI allI)
  assume h: "getIntegration env i = Inr cfg \<and> integrations w i = Some r \<and>
    registeredAuthorizationUrl r = Some a \<and> a \<noteq> [] \<and>
    registeredTokenUrl r = Some t \<and> t \<noteq> [] \<and> registeredServerUrl r = Some u"
  then have c: "cachedEndpoints (integrations w i) u = Some (a, t)"
    by (simp add: cachedEndpoints_def js_defs)
  from h have g: "getIntegration env i = Inr cfg" by simp
  show "fst (discoverMetadata env u i w) =
        Inr \<lparr>issuer = u, authorization_endpoint = a, token_endpoint = t,
             registration_endpoint = None,
             grant_types_supported = Some [''authorization_code'', ''refresh_token''],
             response_types_supported = Some [''code''],
             token_endpoint_auth_methods_supported = Some [''none''],
             code_challenge_methods_supported = Some [''S256'', ''plain'']\<rparr>"
    by (simp add: discoverMetadata_hit [OF g c] createAuthServerMetadata_def js_defs)
  show "trace (snd (discoverMetadata env u i w)) = trace w"
    by (simp add: discoverMetadata_hit [OF g c])
  show "integrations (snd (discoverMetadata env u i w)) = integrations w"
    by (simp add: discoverMetadata_hit [OF g c])
  show "connections (snd (discoverMetadata env u i w)) = connections w"
    by (simp add: discoverMetadata_hit [OF g c])
next
  assume h: "getIntegration env i = Inr cfg \<and>
    (\<forall>r. integrations w i = Some r \<longrightarrow> registeredServerUrl r \<noteq> Some u)"
  then have c: "cachedEndpoints (integrations w i) u = None"
    by (simp add: cachedEndpoints_None)
  from h have g: "getIntegration env i = Inr cfg" by simp
  show "trace (snd (discoverMetadata env u i w)) =
        trace w @ [DiscoverProtectedResource u,
                   DiscoverAuthorizationServer (authServerUrlFor env (trace w) u)]"
    by (rule discoverMetadata_live_trace [OF g c])
  fix md
  assume "discoverAuthorizationServerMetadata env (trace w @ [DiscoverProtectedResource u])
              (authServerUrlFor env (trace w) u) = Inr (Some md)"
  then show "fst (discoverMetadata env u i w) = Inr md"
    by (rule discoverMetadata_live_found [OF g c])
qed

text \<open>The statement at concrete inputs.\<close>

theorem discoverMetadata_cache_witness:
  "(fst (discoverMetadata (acmeEnv acmeConfig acmeTokens) ''https://mcp.acme.com'' ''acme''
          connectedWorld) =
      Inr \<lparr>issuer = ''https://mcp.acme.com'',
           authorization_endpoint = ''https://mcp.acme.com/authorize'',
           token_endpoint = ''https://mcp.acme.com/token'',
           registration_endpoint = None,
           grant_types_supported = Some [''authorization_code'', ''refresh_token''],
           response_types_supported = Some [''code''],
           token_endpoint_auth_methods_supported = Some [''none''],
           code_challenge_methods_supported = Some [''S256'', ''plain'']\<rparr> \<and>
    trace (snd (discoverMetadata (acmeEnv acmeConfig acmeTokens) ''https://mcp.acme.com'' ''acme''
                  connectedWorld)) = []) \<and>
   (trace (snd (discoverMetadata (acmeEnv acmeConfig acmeTokens) ''https://mcp2.acme.com''
                  ''acme'' connectedWorld)) =
      [DiscoverProtectedResource ''https://mcp2.acme.com'',
       DiscoverAuthorizationServer ''https://mcp2.acme.com''] \<and>
    fst (discoverMetadata (acmeEnv acmeConfig acmeTokens) ''https://mcp2.acme.com'' ''acme''
           connectedWorld) = Inr acmeMetadata)"
proof -
  have g: "getIntegration (acmeEnv acmeConfig acmeTokens) ''acme'' = Inr acmeConfig"
    by (simp add: acmeEnv_def)
  have r: "integrations connectedWorld ''acme'' = Some acmeRow"
    by (simp add: connectedWorld_def)
  have u: "authServerUrlFor (acmeEnv acmeConfig acmeTokens) [] ''https://mcp2.acme.com'' =
      ''https://mcp2.acme.com''"
    by (simp add: authServerUrlFor_def acmeEnv_def)
  have a: "discoverAuthorizationServerMetadata (acmeEnv acmeConfig acmeTokens)
      ([] @ [DiscoverProtectedResource ''https://mcp2.acme.com'']) ''https://mcp2.acme.com'' =
      Inr (Some acmeMetadata)"
    by (simp add: acmeEnv_def)
  show ?thesis
    using discoverMetadata_cache [where env = "acmeEnv acmeConfig acmeTokens" and i = "''acme''"
        and cfg = acmeConfig and w = connectedWorld and r = acmeRow
        and a = "''https://mcp.acme.com/authorize''"
        and t = "''https://mcp.acme.com/token''" and u = "''https://mcp.acme.com''"]
      discoverMetadata_cache [where env = "acmeEnv acmeConfig acmeTokens" and i = "''acme''"
        and cfg = acmeConfig and w = connectedWorld and r = acmeRow
        and a = "[]" and t = "[]" and u = "''https://mcp2.acme.com''"]
      g r u a
    by (simp add: acmeRow_def connectedWorld_def)
qed

text \<open>
  Claim C3, as amended. Take a call of \<^verbatim>\<open>discoverMetadata\<close> that misses the cache and
  whose authorization-server lookup fails with \<open>err\<close> (the SDK throws, or returns nothing).
  \<^item> With a fallback \<^verbatim>\<open>oauthConfig\<close>, the call returns the metadata built from it and
    stores its two endpoints and the URL in the row of the integration; when the two
    endpoints are non-empty, the next call for the same URL returns the cached metadata
    and makes no network call.
  \<^item> Without one, the call fails with an error whose message names the integration and
    says that no fallback config is available; the underlying error \<open>err\<close> is written to
    the log, at error level, and is not part of the error thrown.
\<close>

theorem discoverMetadata_lookup_failure:
  assumes cfg: "getIntegration env i = Inr cfg"
    and miss: "cachedEndpoints (integrations w i) u = None"
    and failed: "lookupError (discoverAuthorizationServerMetadata env
                   (trace w @ [DiscoverProtectedResource u]) (authServerUrlFor env (trace w) u)) =
                 Some err"
  shows
    "(oauthConfig cfg = Some oc \<longrightarrow>
        fst (discoverMetadata env u i w) =
          Inr (createAuthServerMetadata u (oc_authorization_endpoint oc) (oc_token_endpoint oc)
                 (oc_registration_endpoint oc)) \<and>
        (\<exists>r. integrations (snd (discoverMetadata env u i w)) i = Some r \<and>
             registeredAuthorizationUrl r = Some (oc_authorization_endpoint oc) \<and>
             registeredTokenUrl r = Some (oc_token_endpoint oc) \<and>
             registeredServerUrl r = Some u) \<and>
        (oc_authorization_endpoint oc \<noteq> [] \<and> oc_token_endpoint oc \<noteq> [] \<longrightarrow>
           fst (discoverMetadata env u i (snd (discoverMetadata env u i w))) =
             Inr (createAuthServerMetadata u (oc_authorization_endpoint oc)
                    (oc_token_endpoint oc) None) \<and>
           trace (snd (discoverMetadata env u i (snd (discoverMetadata env u i w)))) =
             trace (snd (discoverMetadata env u i w)))) \<and>
     (oauthConfig cfg = None \<longrightarrow>
        fst (discoverMetadata env u i w) =
          Inl (JsError (''Could not discover OAuth endpoints for '' @ i @
                 ''. Server may not support OAuth discovery and no fallback config is available.'')) \<and>
        last (logs (snd (discoverMetadata env u i w))) =
          (LogError, ''No fallback OAuth config available'',
           [(''error'', LErr err), (''integration'', LStr i)]))"
proof (intro conjI impI)
  from discoverMetadata_runs_fallbackStep [OF cfg miss failed]
  obtain w1 where d: "discoverMetadata env u i w = fallbackStep cfg u i err w1" ..
  {
    assume oc: "oauthConfig cfg = Some oc"
    show "fst (discoverMetadata env u i w) =
          Inr (createAuthServerMetadata u (oc_authorization_endpoint oc) (oc_token_endpoint oc)
                 (oc_registration_endpoint oc))"
      by (simp add: d fallbackStep_config(1) [OF oc])
    show row: "\<exists>r. integrations (snd (discoverMetadata env u i w)) i = Some r \<and>
             registeredAuthorizationUrl r = Some (oc_authorization_endpoint oc) \<and>
             registeredTokenUrl r = Some (oc_token_endpoint oc) \<and>
             registeredServerUrl r = Some u"
      by (simp add: d fallbackStep_config(2) [OF oc])
    assume ne: "oc_authorization_endpoint oc \<noteq> [] \<and> oc_token_endpoint oc \<noteq> []"
    from row ne have c: "cachedEndpoints (integrations (snd (discoverMetadata env u i w)) i) u =
        Some (oc_authorization_endpoint oc, oc_token_endpoint oc)"
      by (auto simp: cachedEndpoints_def js_defs)
    show "fst (discoverMetadata env u i (snd (discoverMetadata env u i w))) =
             Inr (createAuthServerMetadata u (oc_authorization_endpoint oc)
                    (oc_token_endpoint oc) None)"
      by (simp add: discoverMetadata_hit [OF cfg c])
    show "trace (snd (discoverMetadata env u i (snd (discoverMetadata env u i w)))) =
             trace (snd (discoverMetadata env u i w))"
      by (simp add: discoverMetadata_hit [OF cfg c])
  }
  {
    assume none: "oauthConfig cfg = None"
    show "fst (discoverMetadata env u i w) =
          Inl (JsError (''Could not discover OAuth endpoints for '' @ i @
                 ''. Server may not support OAuth discovery and no fallback config is available.''))"
      by (simp add: d fallbackStep_none [OF none])
    show "last (logs (snd (discoverMetadata env u i w))) =
          (LogError, ''No fallback OAuth config available'',
           [(''error'', LErr err), (''integration'', LStr i)])"
      by (simp add: d fallbackStep_none [OF none])
  }
qed

text \<open>The statement at concrete inputs.\<close>

theorem discoverMetadata_lookup_failure_witness:
  "fst (discoverMetadata (brokenEnv (acmeConfig\<lparr>oauthConfig := Some acmeFallback\<rparr>)
                            (ExternalError ''HTTP 404''))
          ''https://mcp.acme.com'' ''acme'' emptyWorld) =
     Inr (createAuthServerMetadata ''https://mcp.acme.com'' ''https://auth.acme.com/authorize''
            ''https://auth.acme.com/token'' (Some ''https://auth.acme.com/register'')) \<and>
   fst (discoverMetadata (brokenEnv (acmeConfig\<lparr>oauthConfig := Some acmeFallback\<rparr>)
                            (ExternalError ''HTTP 404''))
          ''https://mcp.acme.com'' ''acme''
          (snd (discoverMetadata (brokenEnv (acmeConfig\<lparr>oauthConfig := Some acmeFallback\<rparr>)
                                    (ExternalError ''HTTP 404''))
                  ''https://mcp.acme.com'' ''acme'' emptyWorld))) =
     Inr (createAuthServerMetadata ''https://mcp.acme.com'' ''https://auth.acme.com/authorize''
            ''https://auth.acme.com/token'' None) \<and>
   last (logs (snd (discoverMetadata (brokenEnv acmeConfig (ExternalError ''HTTP 404''))
                      ''https://mcp.acme.com'' ''acme'' emptyWorld))) =
     (LogError, ''No fallback OAuth config available'',
      [(''error'', LErr (ExternalError ''HTTP 404'')), (''integration'', LStr ''acme'')])"
proof -
  let ?fb = "acmeConfig\<lparr>oauthConfig := Some acmeFallback\<rparr>"
  let ?u = "''https://mcp.acme.com''"
  have g: "\<And>c e. getIntegration (brokenEnv c e) ''acme'' = Inr c"
    by (simp add: brokenEnv_def acmeEnv_def)
  have m: "cachedEndpoints (integrations emptyWorld ''acme'') ?u = None"
    by (simp add: cachedEndpoints_def emptyWorld_def)
  have f: "\<And>c. lookupError (discoverAuthorizationServerMetadata
           (brokenEnv c (ExternalError ''HTTP 404''))
           (trace emptyWorld @ [DiscoverProtectedResource ?u])
           (authServerUrlFor (brokenEnv c (ExternalError ''HTTP 404'')) (trace emptyWorld) ?u)) =
         Some (ExternalError ''HTTP 404'')"
    by (simp add: lookupError_def brokenEnv_def acmeEnv_def)
  show ?thesis
    using discoverMetadata_lookup_failure [OF g m f, of ?fb acmeFallback]
      discoverMetadata_lookup_failure [OF g m f, of acmeConfig acmeFallback]
    by (simp add: acmeConfig_def acmeFallback_def)
qed

text \<open>
  Claim C3 as stated asks that the error thrown report the underlying error. Two remote
  sides that fail differently give the same error.
\<close>

theorem discoverMetadata_error_counterexample:
  "fst (discoverMetadata (brokenEnv acmeConfig (ExternalError ''HTTP 404''))
          ''https://mcp.acme.com'' ''acme'' emptyWorld) =
     Inl (JsError ''Could not discover OAuth endpoints for acme. Server may not support OAuth discovery and no fallback config is available.'') \<and>
   fst (discoverMetadata (brokenEnv acmeConfig (ExternalError ''connect ECONNREFUSED''))
          ''https://mcp.acme.com'' ''acme'' emptyWorld) =
     Inl (JsError ''Could not discover OAuth endpoints for acme. Server may not support OAuth discovery and no fallback config is available.'') \<and>
   ExternalError ''HTTP 404'' \<noteq> ExternalError ''connect ECONNREFUSED''"
  by (simp add: run_defs)

text \<open>
  Claim C8. \<^verbatim>\<open>discoverMetadata\<close>, whatever path it takes, leaves the stored client
  credentials of every integration as they were; so does any \<^verbatim>\<open>upsertMcpIntegration\<close>
  whose data has no client credentials; and on an existing row, the cache write changes
  the three discovery fields and nothing else in the world.
\<close>

theorem discoverMetadata_keeps_credentials:
  "storedClientCredentials (snd (discoverMetadata env u i w)) n = storedClientCredentials w n \<and>
   (d_oauthClientId d = None \<and> d_oauthClientSecret d = None \<longrightarrow>
      storedClientCredentials (snd (upsertMcpIntegration i d w)) n = storedClientCredentials w n) \<and>
   (integrations w i = Some r \<longrightarrow>
      snd (upsertMcpIntegration i
             (noData\<lparr>d_registeredAuthorizationUrl := Some a, d_registeredTokenUrl := Some t,
                      d_registeredServerUrl := Some u\<rparr>) w) =
      w\<lparr>integrations := (integrations w)(i \<mapsto>
           r\<lparr>registeredAuthorizationUrl := Some a, registeredTokenUrl := Some t,
             registeredServerUrl := Some u\<rparr>)\<rparr>)"
  using keepsD [OF discoverMetadata_keeps_creds [of n env u i], of w]
    keepsD [OF keeps_creds_upsert [of d n i], of w] upsert_discovery_fields [where w = w and i = i and r = r and a = a and t = t and u = u]
  by simp

text \<open>The statement at concrete inputs.\<close>

theorem discoverMetadata_keeps_credentials_witness:
  "storedClientCredentials connectedWorld ''acme'' = (Some ''client-1'', None) \<and>
   storedClientCredentials
     (snd (discoverMetadata (acmeEnv acmeConfig acmeTokens) ''https://mcp2.acme.com'' ''acme''
             connectedWorld)) ''acme'' = (Some ''client-1'', None) \<and>
   integrations
     (snd (discoverMetadata (acmeEnv acmeConfig acmeTokens) ''https://mcp2.acme.com'' ''acme''
             connectedWorld)) ''acme'' =
     Some (acmeRow\<lparr>registeredServerUrl := Some ''https://mcp2.acme.com''\<rparr>) \<and>
   snd (upsertMcpIntegration ''acme''
          (noData\<lparr>d_registeredAuthorizationUrl := Some ''https://mcp.acme.com/authorize'',
                   d_registeredTokenUrl := Some ''https://mcp.acme.com/token'',
                   d_registeredServerUrl := Some ''https://mcp2.acme.com''\<rparr>) connectedWorld) =
     connectedWorld\<lparr>integrations :=
       [''acme'' \<mapsto> acmeRow\<lparr>registeredServerUrl := Some ''https://mcp2.acme.com''\<rparr>]\<rparr>"
proof -
  have s: "storedClientCredentials connectedWorld ''acme'' = (Some ''client-1'', None)"
    by (simp add: storedClientCredentials_def connectedWorld_def acmeRow_def)
  have r: "integrations connectedWorld ''acme'' = Some acmeRow"
    by (simp add: connectedWorld_def)
  have i: "integrations
     (snd (discoverMetadata (acmeEnv acmeConfig acmeTokens) ''https://mcp2.acme.com'' ''acme''
             connectedWorld)) ''acme'' =
     Some (acmeRow\<lparr>registeredServerUrl := Some ''https://mcp2.acme.com''\<rparr>)"
    by (simp add: run_defs)
  show ?thesis
    using discoverMetadata_keeps_credentials [where env = "acmeEnv acmeConfig acmeTokens" and u = "''https://mcp2.acme.com''"
        and i = "''acme''" and w = connectedWorld and n = "''acme''" and d = noData
        and r = acmeRow and a = "''https://mcp.acme.com/authorize''"
        and t = "''https://mcp.acme.com/token''"] s r i
    by (simp add: noData_def connectedWorld_def acmeRow_def)
qed

section \<open>Expiry and persisted tokens\<close>

text \<open>
  Claim C4. A token response with \<^verbatim>\<open>expires_in: 0\<close> carries an \<^verbatim>\<open>expires_in\<close>, yet the
  test \<^verbatim>\<open>if (expiresIn)\<close> sends it to the default branch: the expiry is the clock plus one
  hour, not the clock plus zero seconds, and the log says that the provider did not
  return \<^verbatim>\<open>expires_in\<close>.
\<close>

theorem calculateTokenExpiration_zero_expires_in:
  "calculateTokenExpiration (Some 0) i r w =
     (Inr (clock w + 60 * 60 * 1000),
      w\<lparr>logs := logs w @
         [(LogWarn, ''OAuth provider did not return expires_in, using default expiry'',
           [(''integration'', LStr i), (''isRefresh'', LBool r),
            (''defaultExpiryMs'', LNum (60 * 60 * 1000))])]\<rparr>) \<and>
   fst (calculateTokenExpiration (Some 0) i r w) \<noteq> Inr (clock w + 0 * 1000)"
  by (simp add: calculateTokenExpiration_def io_defs DEFAULT_TOKEN_EXPIRY_MS_def)

text \<open>
  Claim C5, as amended. After a successful \<^verbatim>\<open>handleOAuthCallback\<close> there is a row of the
  integration, and at least one connection row for the account and that integration
  row; each such connection row holds the returned access token, is active, and expires
  at the clock plus the lifetime computed from \<^verbatim>\<open>expires_in\<close>. When the token response
  has a refresh token, the row holds it. When it has none, a row created by the call
  holds null, and a row updated by the call keeps the refresh token it had before.
\<close>

theorem handleOAuthCallback_connection:
  assumes ok: "fst (handleOAuthCallback env i code ver uri e w) = Inr tokens"
  shows "\<exists>row.
     integrations (snd (handleOAuthCallback env i code ver uri e w)) i = Some row \<and>
     connectionsFor e (mi_id row) (connections (snd (handleOAuthCallback env i code ver uri e w)))
       \<noteq> [] \<and>
     (\<forall>c \<in> set (connectionsFor e (mi_id row)
                   (connections (snd (handleOAuthCallback env i code ver uri e w)))).
        accessToken c = Some (access_token tokens) \<and> isActive c \<and>
        expiresAt c = Some (clock (snd (handleOAuthCallback env i code ver uri e w)) +
                            lifetimeMs (expires_in tokens)) \<and>
        (truthy (refresh_token tokens) \<longrightarrow> refreshToken c = refresh_token tokens)) \<and>
     (\<not> truthy (refresh_token tokens) \<longrightarrow>
        map refreshToken
          (connectionsFor e (mi_id row)
             (connections (snd (handleOAuthCallback env i code ver uri e w)))) =
        (if connectionsFor e (mi_id row) (connections w) = [] then [None]
         else map refreshToken (connectionsFor e (mi_id row) (connections w))))"
proof -
  let ?w' = "snd (handleOAuthCallback env i code ver uri e w)"
  from handleOAuthCallback_effect [OF ok] obtain row where
    row: "integrations ?w' i = Some row"
    and conns: "connections ?w' =
       (if list_ex (\<lambda>c. conn_emailAccountId c = e \<and> conn_integrationId c = mi_id row)
             (connections w)
        then map (\<lambda>c. if conn_emailAccountId c = e \<and> conn_integrationId c = mi_id row
                       then c\<lparr>accessToken := Some (access_token tokens),
                              refreshToken :=
                                setUnlessUndefined (ifTruthy (refresh_token tokens)) (refreshToken c),
                              expiresAt := Some (clock ?w' + lifetimeMs (expires_in tokens)),
                              isActive := True\<rparr>
                       else c) (connections w)
        else connections w @
             [\<lparr>conn_id = nextId ?w' - 1,
               conn_name = i, conn_emailAccountId = e,
               conn_integrationId = mi_id row,
               accessToken = Some (access_token tokens),
               refreshToken = ifTruthy (refresh_token tokens),
               expiresAt = Some (clock ?w' + lifetimeMs (expires_in tokens)),
               isActive = True, apiKey = None\<rparr>])"
    by blast
  let ?P = "\<lambda>c. conn_emailAccountId c = e \<and> conn_integrationId c = mi_id row"
  let ?u = "\<lambda>c. c\<lparr>accessToken := Some (access_token tokens),
                    refreshToken :=
                      setUnlessUndefined (ifTruthy (refresh_token tokens)) (refreshToken c),
                    expiresAt := Some (clock ?w' + lifetimeMs (expires_in tokens)),
                    isActive := True\<rparr>"
  have body: "connectionsFor e (mi_id row) (connections ?w') \<noteq> [] \<and>
     (\<forall>c \<in> set (connectionsFor e (mi_id row) (connections ?w')).
        accessToken c = Some (access_token tokens) \<and> isActive c \<and>
        expiresAt c = Some (clock ?w' + lifetimeMs (expires_in tokens)) \<and>
        (truthy (refresh_token tokens) \<longrightarrow> refreshToken c = refresh_token tokens)) \<and>
     (\<not> truthy (refresh_token tokens) \<longrightarrow>
        map refreshToken (connectionsFor e (mi_id row) (connections ?w')) =
        (if connectionsFor e (mi_id row) (connections w) = [] then [None]
         else map refreshToken (connectionsFor e (mi_id row) (connections w))))"
  proof (cases "list_ex ?P (connections w)")
    case True
    have f: "connectionsFor e (mi_id row) (connections ?w') =
        map ?u (connectionsFor e (mi_id row) (connections w))"
      unfolding connectionsFor_def
      by (subst conns, simp only: True if_True, rule filter_map_update) simp
    have ne: "connectionsFor e (mi_id row) (connections w) \<noteq> []"
      using True by (simp add: list_ex_filter connectionsFor_def)
    show ?thesis
      using ne by (auto simp: f js_defs setUnlessUndefined_def split: option.splits)
  next
    case False
    have nil: "connectionsFor e (mi_id row) (connections w) = []"
      using False by (simp add: list_ex_filter connectionsFor_def)
    have f: "connectionsFor e (mi_id row) (connections ?w') =
        [\<lparr>conn_id = nextId ?w' - 1,
          conn_name = i, conn_emailAccountId = e,
          conn_integrationId = mi_id row,
          accessToken = Some (access_token tokens),
          refreshToken = ifTruthy (refresh_token tokens),
          expiresAt = Some (clock ?w' + lifetimeMs (expires_in tokens)),
          isActive = True, apiKey = None\<rparr>]"
      using nil unfolding connectionsFor_def
      by (subst conns, simp only: False if_False) simp
    show ?thesis
      by (simp add: f nil js_defs split: option.splits)
  qed
  from row body show ?thesis by blast
qed

text \<open>The statement at concrete inputs.\<close>

theorem handleOAuthCallback_connection_witness:
  "fst (handleOAuthCallback (acmeEnv acmeConfig acmeTokens) ''acme'' ''code-1'' ''verifier-1''
          ''https://app.example.com/callback'' ''user-1'' emptyWorld) = Inr acmeTokens \<and>
   (\<exists>row.
     integrations (snd (handleOAuthCallback (acmeEnv acmeConfig acmeTokens) ''acme'' ''code-1''
                          ''verifier-1'' ''https://app.example.com/callback'' ''user-1''
                          emptyWorld)) ''acme'' = Some row \<and>
     map refreshToken
       (connectionsFor ''user-1'' (mi_id row)
          (connections (snd (handleOAuthCallback (acmeEnv acmeConfig acmeTokens) ''acme''
                               ''code-1'' ''verifier-1'' ''https://app.example.com/callback''
                               ''user-1'' emptyWorld)))) = [None])"
proof -
  have ok: "fst (handleOAuthCallback (acmeEnv acmeConfig acmeTokens) ''acme'' ''code-1''
          ''verifier-1'' ''https://app.example.com/callback'' ''user-1'' emptyWorld) =
        Inr acmeTokens"
    by (simp add: run_defs)
  have t: "\<not> truthy (refresh_token acmeTokens)"
    by (simp add: acmeTokens_def truthy_def)
  have n: "\<And>k. connectionsFor ''user-1'' k (connections emptyWorld) = []"
    by (simp add: connectionsFor_def emptyWorld_def)
  show ?thesis
    using handleOAuthCallback_connection [OF ok] ok t n by auto
qed

text \<open>
  Claim C5 as stated asks for a null refresh token on the update path too. Here the
  account is already connected with the refresh token \<open>rt-1\<close>, the token response has no
  refresh token, and the row still holds \<open>rt-1\<close> afterwards.
\<close>

theorem handleOAuthCallback_refresh_token_counterexample:
  "fst (handleOAuthCallback (acmeEnv acmeConfig acmeTokens) ''acme'' ''code-1'' ''verifier-1''
          ''https://app.example.com/callback'' ''user-1'' connectedWorld) = Inr acmeTokens \<and>
   refresh_token acmeTokens = None \<and>
   map refreshToken
     (connections (snd (handleOAuthCallback (acmeEnv acmeConfig acmeTokens) ''acme'' ''code-1''
                          ''verifier-1'' ''https://app.example.com/callback'' ''user-1''
                          connectedWorld))) = [Some ''rt-1'']"
  by (simp add: run_defs)

text \<open>
  Claim C9. Take a call of \<^verbatim>\<open>refreshOAuthTokens\<close> that reaches the exchange (the integration
  has a \<^verbatim>\<open>serverUrl\<close> that parses, the connection read has a refresh token, the client
  credentials and the metadata resolve) and whose token endpoint answers with tokens.
  The call returns these tokens, and afterwards the row that was read holds the refresh
  token of the answer when the answer has one, and the refresh token it held before when
  the answer has none; rows with another id are unchanged.
\<close>

theorem refreshOAuthTokens_refresh_token:
  assumes cfg: "getIntegration env i = Inr cfg"
    and url: "serverUrl cfg = Some url" "url \<noteq> []"
    and c: "fst (findFirstConnection e i w) = Inr (Some c)"
    and rt: "refreshToken c = Some rt" "rt \<noteq> []"
    and cl: "fst (getOAuthClient env i None w) = Inr cl"
    and md: "fst (getMetadataForIntegration env cfg i (snd (getOAuthClient env i None w))) = Inr md"
    and res: "parseURL env url = Some res"
    and ans: "refreshAuthorization env
                (trace (snd (getMetadataForIntegration env cfg i
                               (snd (getOAuthClient env i None w)))))
                (token_endpoint md) md cl rt res = Inr tokens"
  shows "fst (refreshOAuthTokens env i e w) = Inr tokens \<and>
     c \<in> set (connections w) \<and>
     length (connections (snd (refreshOAuthTokens env i e w))) = length (connections w) \<and>
     (\<forall>k < length (connections w).
        (connections w ! k = c \<longrightarrow>
           refreshToken (connections (snd (refreshOAuthTokens env i e w)) ! k) =
             (if truthy (refresh_token tokens) then refresh_token tokens else Some rt)) \<and>
        (conn_id (connections w ! k) \<noteq> conn_id c \<longrightarrow>
           connections (snd (refreshOAuthTokens env i e w)) ! k = connections w ! k))"
proof -
  have url': "ifTruthy (serverUrl cfg) = Some url" and rt': "ifTruthy (refreshToken c) = Some rt"
    using url rt by (simp_all add: js_defs)
  define w3 where "w3 = snd (getMetadataForIntegration env cfg i (snd (getOAuthClient env i None w)))"
  note ans' = ans [folded w3_def]
  have ok: "fst (refreshOAuthTokens env i e w) = Inr tokens"
    by (rule refreshOAuthTokens_returns [OF cfg url' c rt' cl md res w3_def ans'])
  have q: "connections w3 = connections w"
    unfolding w3_def
    using quietViewD [OF getMetadataForIntegration_keeps_quiet, of env cfg i "snd (getOAuthClient env i None w)"]
      quietViewD [OF getOAuthClient_keeps_quiet, of env i None w]
    by simp
  note m = refreshOAuthTokens_effect(2) [OF ok cfg url' c rt' cl md res w3_def ans', unfolded q]
  have f: "connectionMatches w e i c \<and> c \<in> set (connections w)"
    using c by (simp add: findFirstConnection_def find_SomeD')
  then have e: "conn_emailAccountId c = e" by (simp add: connectionMatches_def)
  show ?thesis
    using ok rt f e by (auto simp: m js_or_def)
qed

text \<open>The statement at concrete inputs.\<close>

theorem refreshOAuthTokens_refresh_token_witness:
  "(fst (refreshOAuthTokens (acmeEnv acmeConfig acmeTokens) ''acme'' ''user-1'' connectedWorld) =
      Inr acmeTokens \<and>
    refresh_token acmeTokens = None \<and>
    refreshToken
      (connections (snd (refreshOAuthTokens (acmeEnv acmeConfig acmeTokens) ''acme'' ''user-1''
                           connectedWorld)) ! 0) = Some ''rt-1'') \<and>
   (fst (refreshOAuthTokens (acmeEnv acmeConfig rotatedTokens) ''acme'' ''user-1''
           connectedWorld) = Inr rotatedTokens \<and>
    refresh_token rotatedTokens = Some ''rt-2'' \<and>
    refreshToken
      (connections (snd (refreshOAuthTokens (acmeEnv acmeConfig rotatedTokens) ''acme''
                           ''user-1'' connectedWorld)) ! 0) = Some ''rt-2'')"
proof -
  let ?cl = "\<lparr>client_id = ''client-1'', client_secret = None\<rparr>"
  let ?md = "createAuthServerMetadata ''https://mcp.acme.com'' ''https://mcp.acme.com/authorize''
               ''https://mcp.acme.com/token'' None"
  have g: "\<And>t. getIntegration (acmeEnv acmeConfig t) ''acme'' = Inr acmeConfig"
    by (simp add: acmeEnv_def)
  have u: "serverUrl acmeConfig = Some ''https://mcp.acme.com/mcp''" "''https://mcp.acme.com/mcp'' \<noteq> []"
    by (simp_all add: acmeConfig_def)
  have f: "fst (findFirstConnection ''user-1'' ''acme'' connectedWorld) =
      Inr (Some acmeConnection)"
    by (simp add: findFirstConnection_def connectionMatches_def connectedWorld_def
        acmeConnection_def acmeRow_def)
  have r: "refreshToken acmeConnection = Some ''rt-1''" "''rt-1'' \<noteq> []"
    by (simp_all add: acmeConnection_def)
  have cl: "\<And>t. fst (getOAuthClient (acmeEnv acmeConfig t) ''acme'' None connectedWorld) = Inr ?cl"
    by (simp add: run_defs)
  have md: "\<And>t. fst (getMetadataForIntegration (acmeEnv acmeConfig t) acmeConfig ''acme''
                     (snd (getOAuthClient (acmeEnv acmeConfig t) ''acme'' None connectedWorld))) =
                Inr ?md"
    by (simp add: run_defs)
  have p: "\<And>t. parseURL (acmeEnv acmeConfig t) ''https://mcp.acme.com/mcp'' =
      Some ''https://mcp.acme.com/mcp''"
    by (simp add: acmeEnv_def)
  have a: "\<And>t h. refreshAuthorization (acmeEnv acmeConfig t) h (token_endpoint ?md) ?md ?cl
      ''rt-1'' ''https://mcp.acme.com/mcp'' = Inr t"
    by (simp add: acmeEnv_def)
  have c: "connections connectedWorld = [acmeConnection]"
    "refresh_token acmeTokens = None" "refresh_token rotatedTokens = Some ''rt-2''"
    by (simp_all add: connectedWorld_def acmeTokens_def rotatedTokens_def)
  show ?thesis
    using refreshOAuthTokens_refresh_token [OF g u f r cl md p a, of acmeTokens]
      refreshOAuthTokens_refresh_token [OF g u f r cl md p a, of rotatedTokens] c
    by (simp add: truthy_def)
qed

section \<open>Client credentials\<close>

text \<open>
  Claim C6. When no static client id is configured and no client id is stored for the
  integration, and the \<^verbatim>\<open>serverUrl\<close> or the \<^verbatim>\<open>redirectUri\<close> is missing, \<^verbatim>\<open>getOAuthClient\<close>
  fails with the corresponding configuration error and leaves the world as it was: no
  network call is made.
\<close>

theorem getOAuthClient_configuration_error:
  assumes "getIntegration env i = Inr cfg"
    and "\<not> truthy (Option.bind (getStaticCredentials env i) clientId)"
    and "\<not> truthy (Option.bind (integrations w i) oauthClientId)"
    and "\<not> truthy (serverUrl cfg) \<or> \<not> truthy redirectUri"
  shows "getOAuthClient env i redirectUri w =
     (Inl (JsError (if \<not> truthy (serverUrl cfg)
                    then ''No server URL configured for '' @ i
                    else ''redirectUri is required for dynamic client registration for '' @ i)), w) \<and>
     trace (snd (getOAuthClient env i redirectUri w)) = trace w"
  using assms
  by (auto simp: getOAuthClient_def findUniqueIntegration_def io_defs ifTruthy_def Let_def)

text \<open>The statement at concrete inputs.\<close>

theorem getOAuthClient_configuration_error_witness:
  "getOAuthClient (acmeEnv acmeConfig acmeTokens) ''acme'' None emptyWorld =
     (Inl (JsError ''redirectUri is required for dynamic client registration for acme''),
      emptyWorld) \<and>
   getOAuthClient (acmeEnv (acmeConfig\<lparr>serverUrl := None\<rparr>) acmeTokens) ''acme''
       (Some ''https://app.example.com/callback'') emptyWorld =
     (Inl (JsError ''No server URL configured for acme''), emptyWorld)"
proof -
  have g: "\<And>c. getIntegration (acmeEnv c acmeTokens) ''acme'' = Inr c"
    by (simp add: acmeEnv_def)
  have s: "\<And>c. \<not> truthy (Option.bind (getStaticCredentials (acmeEnv c acmeTokens) ''acme'') clientId)"
    by (simp add: acmeEnv_def truthy_def)
  have d: "\<not> truthy (Option.bind (integrations emptyWorld ''acme'') oauthClientId)"
    by (simp add: emptyWorld_def truthy_def)
  have r: "\<not> truthy (serverUrl acmeConfig) \<or> \<not> truthy None"
    by (simp add: truthy_def)
  have u: "\<not> truthy (serverUrl (acmeConfig\<lparr>serverUrl := None\<rparr>)) \<or>
      \<not> truthy (Some ''https://app.example.com/callback'')"
    by (simp add: truthy_def)
  show ?thesis
    using getOAuthClient_configuration_error [OF g s d r]
      getOAuthClient_configuration_error [OF g s d u]
    by (simp add: truthy_def acmeConfig_def)
qed

end
